theory Spec2Isabelle
  imports Complex_Main
begin

section \<open>The training driver \<open>train.py\<close>\<close>

text \<open>
  The script \<open>src/train.py\<close> is one sequential driver: it parses its arguments, builds a
  multi-slice spiking network and a reference network, and then runs \<open>n_steps\<close> training
  steps with an evaluation round every \<open>n_test_interval\<close> steps.  The networks, the spike
  encoder and the data loaders live in other modules (\<open>networks\<close>, \<open>dcll\<close>, \<open>data\<close>); they
  enter the model as the fields of an environment record.  Everything the driver itself does
  (its counters, its arrays, its files, its printed lines, its exceptions) is modelled below,
  statement by statement, from line 186 on.  What comes before (argument parsing, the random
  seeds, the creation of the log and output directories and the keyword arguments of the
  encoder, lines 98 to 179) only fixes parameters of the model: the arguments, the output
  directory and the encoder.

  Conventions.
  \<^item> Python's \<open>int\<close> is \<open>int\<close>; \<open>//\<close> and \<open>%\<close> are \<open>div\<close> and \<open>mod\<close> (both round towards
    minus infinity), with \<open>ZeroDivisionError\<close> written out.  The ceiling of a quotient is
    the exact one; the rounding of \<open>float\<close> division (arguments beyond \<open>2^53\<close>) is not modelled.
  \<^item> A \<open>float\<close> learning rate or accuracy is a \<open>real\<close>: halving is exact, as it is for
    IEEE doubles short of underflow.
  \<^item> A cell of an \<open>np.empty\<close> array is a \<open>real option\<close>; \<open>None\<close> is a cell that was never
    assigned.
  \<^item> The entries of the \<open>int64\<close> label counter are \<open>int\<close>s that wrap around at \<open>2^63\<close>.
  \<^item> An exception is a value \<open>Inl (e, w)\<close>: the error together with the outside world
    (files, printed lines, logged statistics) at the moment it was raised.
\<close>

subsection \<open>Exceptions\<close>

datatype error =
    ZeroDivisionError
  | ValueError
  | StopIteration
  | IndexError
  | NameError
  | UnpicklingError
  | RuntimeError string

text \<open>Sequencing: the second statement runs only if the first did not raise.\<close>

definition then_do :: "'e + 's \<Rightarrow> ('s \<Rightarrow> 'e + 's) \<Rightarrow> 'e + 's" where
  "then_do r f = (case r of Inl e \<Rightarrow> Inl e | Inr s \<Rightarrow> f s)"

text \<open>A \<open>for x in xs\<close> loop whose body may raise.\<close>

fun for_each :: "('a \<Rightarrow> 's \<Rightarrow> 'e + 's) \<Rightarrow> 'a list \<Rightarrow> 's \<Rightarrow> 'e + 's" where
  "for_each f [] s = Inr s"
| "for_each f (x # xs) s = (case f x s of Inl e \<Rightarrow> Inl e | Inr s' \<Rightarrow> for_each f xs s')"

subsection \<open>Arguments\<close>

datatype dataset = MNIST | RadioML

record args =
  data :: dataset
  just_ref :: bool
  restore_path :: "string option"
  batch_size :: int
  batch_size_test :: int
  n_steps :: int
  no_save :: bool
  n_test_interval :: int
  n_test_samples :: int
  n_iters :: int
  n_iters_test :: int

text \<open>\<open>target_size\<close> is 10 for MNIST and 24 for RadioML (lines 137 and 152).\<close>

definition target_size :: "dataset \<Rightarrow> int" where
  "target_size d = (case d of MNIST \<Rightarrow> 10 | RadioML \<Rightarrow> 24)"

subsection \<open>Numbers, arrays and strings\<close>

text \<open>\<open>np.ceil(float(a) / b).astype(int)\<close> (lines 186 to 191).\<close>

definition ceil_div :: "int \<Rightarrow> int \<Rightarrow> error + int" where
  "ceil_div a b = (if b = 0 then Inl ZeroDivisionError else Inr (- ((- a) div b)))"

text \<open>\<open>np.empty\<close>: a negative dimension is a \<open>ValueError\<close>; no cell is initialised.\<close>

definition np_empty2 :: "int \<Rightarrow> int \<Rightarrow> error + real option list list" where
  "np_empty2 a b =
     (if a < 0 \<or> b < 0 then Inl ValueError
      else Inr (replicate (nat a) (replicate (nat b) None)))"

definition np_empty3 :: "int \<Rightarrow> int \<Rightarrow> int \<Rightarrow> error + real option list list list" where
  "np_empty3 a b c =
     (if a < 0 \<or> b < 0 \<or> c < 0 then Inl ValueError
      else Inr (replicate (nat a) (replicate (nat b) (replicate (nat c) None))))"

text \<open>A numpy index along an axis of length \<open>n\<close>: negative indices count from the end.\<close>

definition np_index :: "nat \<Rightarrow> int \<Rightarrow> error + nat" where
  "np_index n i =
     (if 0 \<le> i \<and> i < int n then Inr (nat i)
      else if - int n \<le> i \<and> i < 0 then Inr (nat (i + int n))
      else Inl IndexError)"

text \<open>\<open>int64\<close> addition wraps around.\<close>

definition wrap64 :: "int \<Rightarrow> int" where
  "wrap64 x = (x + 2 ^ 63) mod 2 ^ 64 - 2 ^ 63"

text \<open>\<open>label_train_counts[label] += 1\<close> (line 323).\<close>

definition count_label :: "int \<Rightarrow> int list \<Rightarrow> error + int list" where
  "count_label label counts =
     (case np_index (length counts) label of
        Inl e \<Rightarrow> Inl e
      | Inr j \<Rightarrow> Inr (counts[j := wrap64 (counts ! j + 1)]))"

text \<open>
  \<open>a[r, i, :] = v\<close> for a one-dimensional \<open>v\<close>: \<open>v\<close> must have the length of the last axis,
  or length one (it is then broadcast).
\<close>

definition broadcast_row :: "nat \<Rightarrow> real list \<Rightarrow> error + real option list" where
  "broadcast_row m v =
     (if length v = m then Inr (map Some v)
      else if length v = 1 then Inr (replicate m (Some (hd v)))
      else Inl ValueError)"

definition set_row3 ::
  "real option list list list \<Rightarrow> int \<Rightarrow> int \<Rightarrow> real list \<Rightarrow> error + real option list list list" where
  "set_row3 a r i v =
     (case np_index (length a) r of
        Inl e \<Rightarrow> Inl e
      | Inr r' \<Rightarrow>
         (case np_index (length (a ! r')) i of
            Inl e \<Rightarrow> Inl e
          | Inr i' \<Rightarrow>
             (case broadcast_row (length (a ! r' ! i')) v of
                Inl e \<Rightarrow> Inl e
              | Inr row \<Rightarrow> Inr (a[r' := (a ! r')[i' := row]]))))"

text \<open>\<open>a[r, i] = x\<close>.\<close>

definition set_cell2 ::
  "real option list list \<Rightarrow> int \<Rightarrow> int \<Rightarrow> real \<Rightarrow> error + real option list list" where
  "set_cell2 a r i x =
     (case np_index (length a) r of
        Inl e \<Rightarrow> Inl e
      | Inr r' \<Rightarrow>
         (case np_index (length (a ! r')) i of
            Inl e \<Rightarrow> Inl e
          | Inr i' \<Rightarrow> Inr (a[r' := (a ! r')[i' := Some x]])))"

text \<open>\<open>str(n)\<close> for a non-negative integer, and \<open>str.zfill\<close>.\<close>

definition digit_char :: "nat \<Rightarrow> char" where
  "digit_char d = char_of (48 + d)"

fun str_nat :: "nat \<Rightarrow> string" where
  "str_nat n = (if n < 10 then [digit_char n] else str_nat (n div 10) @ [digit_char (n mod 10)])"

declare str_nat.simps [simp del]

definition str_int :: "int \<Rightarrow> string" where
  "str_int i = (if i < 0 then CHR ''-'' # str_nat (nat (- i)) else str_nat (nat i))"

definition zfill :: "nat \<Rightarrow> string \<Rightarrow> string" where
  "zfill w s = replicate (w - length s) CHR ''0'' @ s"

text \<open>\<open>os.path.join(out_dir, name)\<close> for a relative \<open>name\<close> and an \<open>out_dir\<close> without a
  trailing slash (\<open>out_dir\<close> ends in the time stamp of line 107).\<close>

definition path_join :: "string \<Rightarrow> string \<Rightarrow> string" where
  "path_join d name = d @ ''/'' @ name"

definition acc_test_path :: "string \<Rightarrow> string" where
  "acc_test_path d = path_join d ''acc_test.npy''"

definition acc_test_ref_path :: "string \<Rightarrow> string" where
  "acc_test_ref_path d = path_join d ''acc_test_ref.npy''"

text \<open>\<open>os.path.join(out_dir, 'parameters_{}.pth'.format(step))\<close> (line 416).\<close>

definition save_path :: "string \<Rightarrow> int \<Rightarrow> string" where
  "save_path d step = path_join d (''parameters_'' @ str_int step @ ''.pth'')"

subsection \<open>The outside world\<close>

datatype 'w contents =
    Npy3 "real option list list list"
  | Npy2 "real option list list"
  | Pth 'w
  | Text string

text \<open>
  A printed line.  Lines whose text is fixed are strings.  Lines that render floating-point
  arrays carry the step string and the data they are computed from instead of the rendering.
\<close>

datatype line =
    Plain string
  | Training string "real list"
  | Testing string "real option list list option" "real option list"
  | Percentages "int list"

text \<open>A call of \<open>write_stats(writer, step, ...)\<close> on the trainable or the reference network.\<close>

datatype stat = NetStats int string | RefStats int

record 'w world =
  files :: "string \<rightharpoonup> 'w contents"
  stdout :: "line list"
  writer :: "stat list"

definition py_print :: "line \<Rightarrow> 'w world \<Rightarrow> 'w world" where
  "py_print l w = w\<lparr>stdout := stdout w @ [l]\<rparr>"

definition write_file :: "string \<Rightarrow> 'w contents \<Rightarrow> 'w world \<Rightarrow> 'w world" where
  "write_file p f w = w\<lparr>files := (files w)(p \<mapsto> f)\<rparr>"

definition write_stats :: "stat \<Rightarrow> 'w world \<Rightarrow> 'w world" where
  "write_stats x w = w\<lparr>writer := writer w @ [x]\<rparr>"

definition dashes :: line where
  "dashes = Plain (replicate 120 CHR ''-'')"

subsection \<open>The collaborators\<close>

text \<open>
  The modules imported by the script.  A batch is a pair of a sample tensor and the list of
  its integer labels; \<open>'t\<close> is the type of tensors, \<open>'n\<close> and \<open>'r\<close> are the two network
  objects, \<open>'w\<close> is a state dict.  The learning rates that the script rescales are kept
  outside the network objects (in the program state), and are handed to the learning steps.
  Only the calls whose failure the script reacts to, or whose failure is a matter of the
  script's own data, can fail here: \<open>torch.Tensor(...).to(device)\<close> on a spike train and
  \<open>load_state_dict\<close>.  Whether moving a spike train to the device succeeds is a matter of
  the device's memory at that moment, not of the spike train alone: \<open>to_tensor\<close> takes the
  step at which it is called, so that the same tensor can fit at one step and fail at a
  later one.
\<close>

record ('t, 'n, 'r, 'w) env =
  train_data :: "('t \<times> int list) list"
  test_loader :: "('t \<times> int list) list"
  out_dir :: string
  new_net :: 'n
  new_slice_lrs :: "real list"
  new_lr2 :: real
  new_ref_net :: 'r
  new_ref_lr :: real
  load_state_dict :: "'n \<Rightarrow> 'w \<Rightarrow> error + 'n"
  state_dict :: "'n \<Rightarrow> 'w"
  net_to_device :: "'n \<Rightarrow> 'n"
  net_cpu :: "'n \<Rightarrow> 'n"
  net_reset :: "bool \<Rightarrow> 'n \<Rightarrow> 'n"
  net_train :: "'n \<Rightarrow> 'n"
  net_eval :: "'n \<Rightarrow> 'n"
  net_learn :: "real list \<Rightarrow> real \<Rightarrow> 'n \<Rightarrow> 't \<Rightarrow> 't \<Rightarrow> 'n"
  net_test :: "'n \<Rightarrow> 't \<Rightarrow> 'n"
  net_accuracy :: "'n \<Rightarrow> 't list \<Rightarrow> real list"
  to_one_hot :: "int list \<Rightarrow> int \<Rightarrow> 't"
  to_spike_train :: "'t \<Rightarrow> 't \<Rightarrow> int \<Rightarrow> 't list \<times> 't list"
  to_tensor :: "int \<Rightarrow> 't list \<Rightarrow> error + 't list"
  ref_input :: "'t \<Rightarrow> 't"
  ref_label :: "'t \<Rightarrow> 't"
  ref_to_device :: "'r \<Rightarrow> 'r"
  ref_train :: "'r \<Rightarrow> 'r"
  ref_eval :: "'r \<Rightarrow> 'r"
  ref_learn :: "real \<Rightarrow> 'r \<Rightarrow> 't \<Rightarrow> 't \<Rightarrow> 'r"
  ref_test :: "'r \<Rightarrow> 't \<Rightarrow> 'r"
  ref_accuracy :: "'r \<Rightarrow> 't \<Rightarrow> real"

text \<open>
  Modelled from the spec: the data loaders (\<open>data/load_radio_ml.py\<close>, \<open>data/load_mnist.py\<close>)
  are not part of the sources at hand.  Following the spec ("deterministic re-iteration
  given fixed seed"), \<open>iter(train_data)\<close> yields the batches of the list \<open>train_data\<close>, in
  this order, every time it is called.
\<close>

definition iter_train :: "('t, 'n, 'r, 'w) env \<Rightarrow> ('t \<times> int list) list" where
  "iter_train env = train_data env"

subsection \<open>The program state\<close>

text \<open>
  The variables \<open>net\<close> and \<open>acc_test\<close> exist only when \<open>just_ref\<close> is off (lines 213 to
  243); \<open>slice_lr ! i\<close> is \<open>net.dcll_slices[i].optimizer.param_groups[-1]['lr']\<close> and
  \<open>slice_lr2\<close> is \<open>net.dcll_slices[-1].optimizer2.param_groups[-1]['lr']\<close>.
\<close>

record 'n snn =
  net :: 'n
  slice_lr :: "real list"
  slice_lr2 :: real
  acc_test :: "real option list list list"

record ('t, 'n, 'r, 'w) state =
  snn :: "'n snn option"
  ref_net :: 'r
  ref_lr :: real
  acc_test_ref :: "real option list list"
  gen_train :: "('t \<times> int list) list"
  all_test_data :: "('t \<times> 't) list"
  label_train_counts :: "int list"
  world :: "'w world"

definition say :: "line \<Rightarrow> ('t, 'n, 'r, 'w) state \<Rightarrow> ('t, 'n, 'r, 'w) state" where
  "say l st = st\<lparr>world := py_print l (world st)\<rparr>"

subsection \<open>Set-up (lines 186 to 295)\<close>

text \<open>
  Restoring the weights (lines 225 to 234).  \<open>os.path.isfile\<close> holds of the paths in the
  domain of \<open>files\<close>; \<open>torch.load\<close> returns the state dict stored in a \<open>.pth\<close> file and
  fails on any other file.
\<close>

definition restore ::
  "args \<Rightarrow> ('t, 'n, 'r, 'w) env \<Rightarrow> 'n \<Rightarrow> 'w world \<Rightarrow> (error \<times> 'w world) + ('n \<times> 'w world)" where
  "restore cfg env n w =
     (case restore_path cfg of
        None \<Rightarrow> Inr (n, w)
      | Some p \<Rightarrow>
         if p = [] then Inr (n, w)
         else
           let w1 = py_print dashes w in
           if files w1 p = None then
             Inr (n, py_print dashes
                       (py_print (Plain ''File does not exist! Exit loading...'')
                         (py_print (Plain (''ERROR: Cannot load file `'' @ p @ ''`.'')) w1)))
           else
             (case files w1 p of
                Some (Pth sd) \<Rightarrow>
                  (case load_state_dict env n sd of
                     Inl e \<Rightarrow> Inl (e, w1)
                   | Inr n' \<Rightarrow>
                       Inr (n', py_print dashes
                                  (py_print (Plain (''Loaded the weights of trained SNN model from `''
                                                     @ p @ ''`.'')) w1)))
              | _ \<Rightarrow> Inl (UnpicklingError, w1)))"

text \<open>Lines 213 to 243: the trainable network, unless \<open>just_ref\<close>.\<close>

definition setup_net ::
  "args \<Rightarrow> ('t, 'n, 'r, 'w) env \<Rightarrow> int \<Rightarrow> int \<Rightarrow> 'w world
     \<Rightarrow> (error \<times> 'w world) + ('n snn option \<times> 'w world)" where
  "setup_net cfg env n_tests_total n_test w =
     (if just_ref cfg then Inr (None, w)
      else
        (case restore cfg env (new_net env) w of
           Inl e \<Rightarrow> Inl e
         | Inr (n, w') \<Rightarrow>
            (case np_empty3 n_tests_total n_test (int (length (new_slice_lrs env))) of
               Inl e \<Rightarrow> Inl (e, w')
             | Inr a \<Rightarrow>
                 Inr (Some \<lparr>net = net_reset env True (net_to_device env n),
                            slice_lr = new_slice_lrs env,
                            slice_lr2 = new_lr2 env,
                            acc_test = a\<rparr>, w'))))"

text \<open>Lines 266 to 275: the run's metadata, unless \<open>no_save\<close>.  The three files written by
  the script itself are modelled; the copies made by \<open>save_source\<close> (module \<open>dcll\<close>) are not.\<close>

definition save_metadata :: "args \<Rightarrow> string \<Rightarrow> 'w world \<Rightarrow> 'w world" where
  "save_metadata cfg d w =
     (if no_save cfg then w
      else write_file (path_join d ''args.pkl'') (Text ''args'')
            (write_file (path_join d ''args.txt'') (Text ''args'')
              (write_file (path_join d ''log_dir.txt'') (Text ''log_dir'') w)))"

text \<open>Line 292: \<open>[next(gen_test) for i in range(n_test)]\<close>.\<close>

definition take_tests :: "int \<Rightarrow> 'a list \<Rightarrow> error + 'a list" where
  "take_tests n_test bs = (if int (length bs) < n_test then Inl StopIteration else Inr (take (nat n_test) bs))"

definition start_up ::
  "args \<Rightarrow> ('t, 'n, 'r, 'w) env \<Rightarrow> 'w world \<Rightarrow> (error \<times> 'w world) + ('t, 'n, 'r, 'w) state" where
  "start_up cfg env w =
     (case ceil_div (n_test_samples cfg) (batch_size_test cfg) of
        Inl e \<Rightarrow> Inl (e, w)
      | Inr n_test \<Rightarrow>
     (case ceil_div (n_steps cfg) (n_test_interval cfg) of
        Inl e \<Rightarrow> Inl (e, w)
      | Inr n_tests_total \<Rightarrow>
     (case setup_net cfg env n_tests_total n_test w of
        Inl e \<Rightarrow> Inl e
      | Inr (s, w1) \<Rightarrow>
     (case np_empty2 n_tests_total n_test of
        Inl e \<Rightarrow> Inl (e, w1)
      | Inr a_ref \<Rightarrow>
     (let w2 = save_metadata cfg (out_dir env) w1 in
      case take_tests n_test (test_loader env) of
        Inl e \<Rightarrow> Inl (e, w2)
      | Inr tests \<Rightarrow>
          Inr \<lparr>snn = s,
               ref_net = ref_to_device env (new_ref_net env),
               ref_lr = new_ref_lr env,
               acc_test_ref = a_ref,
               gen_train = iter_train env,
               all_test_data =
                 map (\<lambda>(samples, labels). (samples, to_one_hot env labels (target_size (data cfg)))) tests,
               label_train_counts = replicate (nat (target_size (data cfg))) 0,
               world = w2\<rparr>)))))"

subsection \<open>One training step (lines 300 to 360)\<close>

text \<open>Lines 302 to 308.\<close>

definition adjust_lr ::
  "args \<Rightarrow> int \<Rightarrow> ('t, 'n, 'r, 'w) state \<Rightarrow> (error \<times> 'w world) + ('t, 'n, 'r, 'w) state" where
  "adjust_lr cfg step st =
     (if (step + 1) mod 1000 = 0 then
        (case (if just_ref cfg then Inr st
               else (case snn st of
                       None \<Rightarrow> Inl (NameError, world st)
                     | Some s \<Rightarrow>
                         if slice_lr s = [] then Inl (IndexError, world st)
                         else Inr (st\<lparr>snn := Some (s\<lparr>slice_lr := map (\<lambda>lr. lr / 2) (slice_lr s),
                                                     slice_lr2 := slice_lr2 s / 2\<rparr>)\<rparr>))) of
           Inl e \<Rightarrow> Inl e
         | Inr st' \<Rightarrow> Inr (say (Plain ''- Adjusting learning rates'') (st'\<lparr>ref_lr := ref_lr st' / 2\<rparr>)))
      else Inr st)"

text \<open>Lines 317 to 321: the next training batch, restarting the iterator once when it is
  exhausted.  The second \<open>next\<close> is outside the \<open>try\<close>.\<close>

definition next_batch ::
  "('t, 'n, 'r, 'w) env \<Rightarrow> ('t, 'n, 'r, 'w) state
     \<Rightarrow> (error \<times> 'w world) + (('t \<times> int list) \<times> ('t, 'n, 'r, 'w) state)" where
  "next_batch env st =
     (case gen_train st of
        b # bs \<Rightarrow> Inr (b, st\<lparr>gen_train := bs\<rparr>)
      | [] \<Rightarrow>
         (case iter_train env of
            b # bs \<Rightarrow> Inr (b, st\<lparr>gen_train := bs\<rparr>)
          | [] \<Rightarrow> Inl (StopIteration, world st)))"

text \<open>Lines 322 and 323.\<close>

fun count_labels :: "int list \<Rightarrow> int list \<Rightarrow> error + int list" where
  "count_labels [] counts = Inr counts"
| "count_labels (label # labels) counts =
     (case count_label label counts of
        Inl e \<Rightarrow> Inl e
      | Inr counts' \<Rightarrow> count_labels labels counts')"

text \<open>\<open>x[t]\<close> on a tensor whose first axis is time.\<close>

definition tensor_at :: "'t list \<Rightarrow> nat \<Rightarrow> error + 't" where
  "tensor_at xs t = (if t < length xs then Inr (xs ! t) else Inl IndexError)"

text \<open>Lines 345 to 347.\<close>

fun learn_loop ::
  "('t, 'n, 'r, 'w) env \<Rightarrow> real list \<Rightarrow> real \<Rightarrow> 't list \<Rightarrow> 't list \<Rightarrow> nat list \<Rightarrow> 'n \<Rightarrow> error + 'n" where
  "learn_loop env lrs lr2 xs ls [] n = Inr n"
| "learn_loop env lrs lr2 xs ls (t # ts) n =
     (case tensor_at xs t of
        Inl e \<Rightarrow> Inl e
      | Inr x \<Rightarrow>
         (case tensor_at ls t of
            Inl e \<Rightarrow> Inl e
          | Inr l \<Rightarrow> learn_loop env lrs lr2 xs ls ts (net_learn env lrs lr2 n x l)))"

text \<open>Lines 328 to 350.\<close>

definition train_snn ::
  "args \<Rightarrow> ('t, 'n, 'r, 'w) env \<Rightarrow> int \<Rightarrow> 't \<Rightarrow> 't \<Rightarrow> ('t, 'n, 'r, 'w) state
     \<Rightarrow> (error \<times> 'w world) + ('t, 'n, 'r, 'w) state" where
  "train_snn cfg env step input labels st =
     (if just_ref cfg then Inr st
      else
        (case snn st of
           None \<Rightarrow> Inl (NameError, world st)
         | Some s \<Rightarrow>
            (case to_spike_train env input labels (n_iters cfg) of (xs, ls) \<Rightarrow>
            (case to_tensor env step xs of
               Inl e \<Rightarrow> Inl (e, world st)
             | Inr input_spikes \<Rightarrow>
            (case to_tensor env step ls of
               Inl e \<Rightarrow> Inl (e, world st)
             | Inr labels_spikes \<Rightarrow>
            (case learn_loop env (slice_lr s) (slice_lr2 s) input_spikes labels_spikes
                    [0 ..< nat (n_iters cfg)] (net_train env (net_reset env False (net s))) of
               Inl e \<Rightarrow> Inl (e, world st)
             | Inr n' \<Rightarrow>
                 Inr (say (Training (zfill 5 (str_int step)) (net_accuracy env n' labels_spikes))
                        (st\<lparr>snn := Some (s\<lparr>net := n'\<rparr>)\<rparr>))))))))"

text \<open>Lines 355 to 360.\<close>

definition train_ref ::
  "('t, 'n, 'r, 'w) env \<Rightarrow> 't \<Rightarrow> 't \<Rightarrow> ('t, 'n, 'r, 'w) state \<Rightarrow> ('t, 'n, 'r, 'w) state" where
  "train_ref env input labels st =
     st\<lparr>ref_net := ref_learn env (ref_lr st) (ref_train env (ref_net st))
                      (ref_input env input) (ref_label env labels)\<rparr>"

subsection \<open>An evaluation round (lines 364 to 433)\<close>

text \<open>Lines 393 and 394.\<close>

fun test_loop :: "('t, 'n, 'r, 'w) env \<Rightarrow> 't list \<Rightarrow> nat list \<Rightarrow> 'n \<Rightarrow> error + 'n" where
  "test_loop env xs [] n = Inr n"
| "test_loop env xs (t # ts) n =
     (case tensor_at xs t of
        Inl e \<Rightarrow> Inl e
      | Inr x \<Rightarrow> test_loop env xs ts (net_test env n x))"

definition advice :: "string \<Rightarrow> line" where
  "advice m = Plain (''- Exception: '' @ m
                      @ ''. Try to decrease your batch_size_test with the --batch_size_test argument.'')"

text \<open>Lines 367 to 398: the trainable network on the held-out batch \<open>i\<close>.  Only a
  \<open>RuntimeError\<close> of line 382 is caught; it is printed with the advice and raised again.\<close>

definition test_snn ::
  "args \<Rightarrow> ('t, 'n, 'r, 'w) env \<Rightarrow> int \<Rightarrow> int \<Rightarrow> int \<Rightarrow> 't \<Rightarrow> 't \<Rightarrow> ('t, 'n, 'r, 'w) state
     \<Rightarrow> (error \<times> 'w world) + ('t, 'n, 'r, 'w) state" where
  "test_snn cfg env step test_idx i x y st =
     (if just_ref cfg then Inr st
      else
        (case snn st of
           None \<Rightarrow> Inl (NameError, world st)
         | Some s \<Rightarrow>
            (case to_spike_train env x y (n_iters_test cfg) of (xs, ls) \<Rightarrow>
            (case to_tensor env step xs of
               Inl e \<Rightarrow>
                 (case e of
                    RuntimeError m \<Rightarrow> Inl (e, py_print (advice m) (world st))
                  | _ \<Rightarrow> Inl (e, world st))
             | Inr test_input \<Rightarrow>
            (case to_tensor env step ls of
               Inl e \<Rightarrow> Inl (e, world st)
             | Inr test_labels \<Rightarrow>
            (case test_loop env test_input [0 ..< nat (n_iters_test cfg)]
                    (net_eval env (net_reset env False (net s))) of
               Inl e \<Rightarrow> Inl (e, world st)
             | Inr n' \<Rightarrow>
            (case set_row3 (acc_test s) test_idx i (net_accuracy env n' test_labels) of
               Inl e \<Rightarrow> Inl (e, world st)
             | Inr a \<Rightarrow>
                 Inr (st\<lparr>snn := Some (s\<lparr>net := n', acc_test := a\<rparr>),
                         world := (if i = 0 then write_stats (NetStats step ''_batch_0'') (world st)
                                   else world st)\<rparr>))))))))"

text \<open>Lines 400 to 408: the reference network on the held-out batch \<open>i\<close>.\<close>

definition test_ref ::
  "('t, 'n, 'r, 'w) env \<Rightarrow> int \<Rightarrow> int \<Rightarrow> int \<Rightarrow> 't \<Rightarrow> 't \<Rightarrow> ('t, 'n, 'r, 'w) state
     \<Rightarrow> (error \<times> 'w world) + ('t, 'n, 'r, 'w) state" where
  "test_ref env step test_idx i x y st =
     (let r = ref_test env (ref_eval env (ref_net st)) (ref_input env x) in
      case set_cell2 (acc_test_ref st) test_idx i (ref_accuracy env r (ref_label env y)) of
        Inl e \<Rightarrow> Inl (e, world st)
      | Inr a \<Rightarrow>
          Inr (st\<lparr>ref_net := r, acc_test_ref := a,
                  world := (if i = 0 then write_stats (RefStats step) (world st) else world st)\<rparr>))"

definition test_batch ::
  "args \<Rightarrow> ('t, 'n, 'r, 'w) env \<Rightarrow> int \<Rightarrow> int \<Rightarrow> int \<times> 't \<times> 't \<Rightarrow> ('t, 'n, 'r, 'w) state
     \<Rightarrow> (error \<times> 'w world) + ('t, 'n, 'r, 'w) state" where
  "test_batch cfg env step test_idx b st =
     (case b of (i, x, y) \<Rightarrow>
        then_do (test_snn cfg env step test_idx i x y st) (test_ref env step test_idx i x y))"

definition enumerate_py :: "'a list \<Rightarrow> (int \<times> 'a) list" where
  "enumerate_py xs = zip (map int [0 ..< length xs]) xs"

text \<open>Lines 411 to 421: the two accuracy arrays and the weights go to disk, unless
  \<open>just_ref\<close> or \<open>no_save\<close>.\<close>

definition save_round ::
  "args \<Rightarrow> ('t, 'n, 'r, 'w) env \<Rightarrow> int \<Rightarrow> ('t, 'n, 'r, 'w) state
     \<Rightarrow> (error \<times> 'w world) + ('t, 'n, 'r, 'w) state" where
  "save_round cfg env step st =
     (if \<not> just_ref cfg \<and> \<not> no_save cfg then
        (case snn st of
           None \<Rightarrow> Inl (NameError, world st)
         | Some s \<Rightarrow>
            (let w1 = write_file (acc_test_path (out_dir env)) (Npy3 (acc_test s)) (world st);
                 w2 = write_file (acc_test_ref_path (out_dir env)) (Npy2 (acc_test_ref st)) w1;
                 w3 = write_file (save_path (out_dir env) step)
                        (Pth (state_dict env (net_cpu env (net s)))) w2;
                 w4 = py_print dashes
                        (py_print (Plain (''- Saved network parameters to `''
                                           @ save_path (out_dir env) step @ ''`.''))
                          (py_print dashes w3))
             in Inr (st\<lparr>snn := Some (s\<lparr>net := net_to_device env (net_cpu env (net s))\<rparr>),
                        world := w4\<rparr>)))
      else Inr st)"

text \<open>Lines 423 to 433: the round's report.\<close>

definition report_round ::
  "args \<Rightarrow> int \<Rightarrow> int \<Rightarrow> ('t, 'n, 'r, 'w) state \<Rightarrow> (error \<times> 'w world) + ('t, 'n, 'r, 'w) state" where
  "report_round cfg step test_idx st =
     (case (if just_ref cfg then Inr None
            else (case snn st of
                    None \<Rightarrow> Inl NameError
                  | Some s \<Rightarrow>
                     (case np_index (length (acc_test s)) test_idx of
                        Inl e \<Rightarrow> Inl e
                      | Inr r \<Rightarrow> Inr (Some (acc_test s ! r))))) of
        Inl e \<Rightarrow> Inl (e, world st)
      | Inr acc \<Rightarrow>
         (case np_index (length (acc_test_ref st)) test_idx of
            Inl e \<Rightarrow> Inl (e, world st)
          | Inr r \<Rightarrow>
              Inr (say dashes
                    (say (Percentages (label_train_counts st))
                      (say (Testing (zfill 5 (str_int step)) acc (acc_test_ref st ! r))
                        (say dashes st))))))"

text \<open>Lines 366 to 408: the loop over the held-out batches.\<close>

definition test_all ::
  "args \<Rightarrow> ('t, 'n, 'r, 'w) env \<Rightarrow> int \<Rightarrow> ('t, 'n, 'r, 'w) state
     \<Rightarrow> (error \<times> 'w world) + ('t, 'n, 'r, 'w) state" where
  "test_all cfg env step st =
     for_each (test_batch cfg env step (step div n_test_interval cfg))
       (enumerate_py (all_test_data st)) st"

definition eval_round ::
  "args \<Rightarrow> ('t, 'n, 'r, 'w) env \<Rightarrow> int \<Rightarrow> ('t, 'n, 'r, 'w) state
     \<Rightarrow> (error \<times> 'w world) + ('t, 'n, 'r, 'w) state" where
  "eval_round cfg env step st =
     then_do (test_all cfg env step st)
       (\<lambda>st1. then_do (save_round cfg env step st1)
                 (report_round cfg step (step div n_test_interval cfg)))"

subsection \<open>The main loop (line 300)\<close>

text \<open>Lines 302 to 360: the training part of a step.\<close>

definition train_phase ::
  "args \<Rightarrow> ('t, 'n, 'r, 'w) env \<Rightarrow> int \<Rightarrow> ('t, 'n, 'r, 'w) state
     \<Rightarrow> (error \<times> 'w world) + ('t, 'n, 'r, 'w) state" where
  "train_phase cfg env step st =
     then_do (adjust_lr cfg step st) (\<lambda>st1.
       case next_batch env st1 of
         Inl e \<Rightarrow> Inl e
       | Inr ((input, labels), st2) \<Rightarrow>
          (case count_labels labels (label_train_counts st2) of
             Inl e \<Rightarrow> Inl (e, world st2)
           | Inr counts \<Rightarrow>
              (let st3 = st2\<lparr>label_train_counts := counts\<rparr>;
                   one_hot = to_one_hot env labels (target_size (data cfg))
               in then_do (train_snn cfg env step input one_hot st3)
                    (\<lambda>st4. Inr (train_ref env input one_hot st4)))))"

text \<open>Lines 300 to 433: one iteration of the main loop.\<close>

definition train_step ::
  "args \<Rightarrow> ('t, 'n, 'r, 'w) env \<Rightarrow> int \<Rightarrow> ('t, 'n, 'r, 'w) state
     \<Rightarrow> (error \<times> 'w world) + ('t, 'n, 'r, 'w) state" where
  "train_step cfg env step st =
     then_do (train_phase cfg env step st) (\<lambda>st5.
       if n_test_interval cfg = 0 then Inl (ZeroDivisionError, world st5)
       else if step mod n_test_interval cfg = 0 then eval_round cfg env step st5
       else Inr st5)"

text \<open>The first \<open>k\<close> iterations of \<open>for step in range(args.n_steps)\<close>.\<close>

primrec run_steps ::
  "args \<Rightarrow> ('t, 'n, 'r, 'w) env \<Rightarrow> nat \<Rightarrow> ('t, 'n, 'r, 'w) state
     \<Rightarrow> (error \<times> 'w world) + ('t, 'n, 'r, 'w) state" where
  "run_steps cfg env 0 st = Inr st"
| "run_steps cfg env (Suc k) st =
     (case run_steps cfg env k st of
        Inl e \<Rightarrow> Inl e
      | Inr st' \<Rightarrow> train_step cfg env (int k) st')"

definition main ::
  "args \<Rightarrow> ('t, 'n, 'r, 'w) env \<Rightarrow> 'w world \<Rightarrow> (error \<times> 'w world) + ('t, 'n, 'r, 'w) state" where
  "main cfg env w =
     (case start_up cfg env w of
        Inl e \<Rightarrow> Inl e
      | Inr st \<Rightarrow> run_steps cfg env (nat (n_steps cfg)) st)"

section \<open>Observations, invariants and small runs\<close>

subsection \<open>Observations of a state\<close>

text \<open>The learning rates the script rescales: the reference optimizer's, then (when the
  trainable network exists) the last slice's second optimizer's and every slice's.\<close>

definition learning_rates :: "('t, 'n, 'r, 'w) state \<Rightarrow> real list" where
  "learning_rates st =
     ref_lr st # (case snn st of None \<Rightarrow> [] | Some s \<Rightarrow> slice_lr2 s # slice_lr s)"

text \<open>The step strings of the \<open>[TESTING]\<close> lines printed so far: one line per evaluation round.\<close>

fun tested_steps :: "line list \<Rightarrow> string list" where
  "tested_steps [] = []"
| "tested_steps (Testing s a b # ls) = s # tested_steps ls"
| "tested_steps (l # ls) = tested_steps ls"

text \<open>What only the training part of a step changes, and what only an evaluation round
  changes.\<close>

definition training_view ::
  "('t, 'n, 'r, 'w) state \<Rightarrow> ('t \<times> int list) list \<times> int list \<times> real list" where
  "training_view st = (gen_train st, label_train_counts st, learning_rates st)"

definition evaluation_view ::
  "('t, 'n, 'r, 'w) state \<Rightarrow>
     real option list list \<times> real option list list list option \<times> (string \<rightharpoonup> 'w contents) \<times> string list" where
  "evaluation_view st =
     (acc_test_ref st, map_option acc_test (snn st), files (world st),
      tested_steps (stdout (world st)))"

subsection \<open>Shapes and rounds\<close>

text \<open>The two array dimensions as the claims state them, with the ceiling of the quotient
  of reals.\<close>

definition n_test :: "args \<Rightarrow> int" where
  "n_test cfg = \<lceil>real_of_int (n_test_samples cfg) / real_of_int (batch_size_test cfg)\<rceil>"

definition n_tests_total :: "args \<Rightarrow> int" where
  "n_tests_total cfg = \<lceil>real_of_int (n_steps cfg) / real_of_int (n_test_interval cfg)\<rceil>"

text \<open>The number of evaluation rounds among the first \<open>k\<close> steps.\<close>

definition rounds_run :: "int \<Rightarrow> nat \<Rightarrow> nat" where
  "rounds_run interval k = length [s \<leftarrow> [0 ..< k]. int s mod interval = 0]"

text \<open>A row of cells is written when every cell has been assigned, and blank when none
  has.  An array of shape \<open>[T, N]\<close> (or \<open>[T, N, S]\<close>) has recorded \<open>R\<close> rounds when its first
  \<open>R\<close> rows are written and all later rows are blank.\<close>

definition written :: "real option list \<Rightarrow> bool" where
  "written row = list_all (\<lambda>c. c \<noteq> None) row"

definition blank :: "real option list \<Rightarrow> bool" where
  "blank row = list_all (\<lambda>c. c = None) row"

definition rounds_recorded2 :: "nat \<Rightarrow> nat \<Rightarrow> nat \<Rightarrow> real option list list \<Rightarrow> bool" where
  "rounds_recorded2 T N R A \<longleftrightarrow>
     length A = T \<and> list_all (\<lambda>row. length row = N) A
     \<and> list_all written (take R A) \<and> list_all blank (drop R A)"

definition rounds_recorded3 ::
  "nat \<Rightarrow> nat \<Rightarrow> nat \<Rightarrow> nat \<Rightarrow> real option list list list \<Rightarrow> bool" where
  "rounds_recorded3 T N S R A \<longleftrightarrow>
     length A = T \<and> list_all (\<lambda>m. length m = N \<and> list_all (\<lambda>row. length row = S) m) A
     \<and> list_all (list_all written) (take R A) \<and> list_all (list_all blank) (drop R A)"

text \<open>The invariant of the main loop on the held-out pool and the two accuracy arrays.\<close>

definition run_inv ::
  "args \<Rightarrow> ('t, 'n, 'r, 'w) env \<Rightarrow> nat \<Rightarrow> nat \<Rightarrow> nat \<Rightarrow> ('t, 'n, 'r, 'w) state \<Rightarrow> bool" where
  "run_inv cfg env T N R st \<longleftrightarrow>
     length (all_test_data st) = N
     \<and> rounds_recorded2 T N R (acc_test_ref st)
     \<and> (case snn st of
          None \<Rightarrow> just_ref cfg
        | Some s \<Rightarrow> \<not> just_ref cfg
                    \<and> rounds_recorded3 T N (length (new_slice_lrs env)) R (acc_test s))"



text \<open>The training iterator before step \<open>k\<close>: it stands at batch \<open>k mod n\<close> of the loader, or
  it has just been exhausted.\<close>

definition at_batch :: "('t \<times> int list) list \<Rightarrow> nat \<Rightarrow> ('t \<times> int list) list \<Rightarrow> bool" where
  "at_batch td k gen \<longleftrightarrow>
     gen = drop (k mod length td) td \<or> (0 < k \<and> k mod length td = 0 \<and> gen = [])"

text \<open>The world after the four lines that report a missing restore file (lines 226 to
  234).\<close>

definition missing_report :: "string \<Rightarrow> 'w world \<Rightarrow> 'w world" where
  "missing_report p w =
     py_print dashes
       (py_print (Plain ''File does not exist! Exit loading...'')
         (py_print (Plain (''ERROR: Cannot load file `'' @ p @ ''`.''))
           (py_print dashes w)))"

subsection \<open>Small runs\<close>

text \<open>
  A concrete environment on which the model can be evaluated: two training batches of two
  examples, two held-out batches, a network of two slices whose weights count the learning
  steps taken, and a reference network that counts its own.
\<close>

definition env0 :: "(nat, nat, nat, nat) env" where
  "env0 =
     \<lparr>train_data = [(1, [0, 1]), (2, [2, 0])],
      test_loader = [(7, [1, 1]), (8, [0, 2])],
      out_dir = ''results'',
      new_net = 0, new_slice_lrs = [1 / 4, 1 / 8], new_lr2 = 1 / 2,
      new_ref_net = 0, new_ref_lr = 1,
      load_state_dict = (\<lambda>n w. Inr w), state_dict = (\<lambda>n. n),
      net_to_device = (\<lambda>n. n), net_cpu = (\<lambda>n. n), net_reset = (\<lambda>b n. n),
      net_train = (\<lambda>n. n), net_eval = (\<lambda>n. n),
      net_learn = (\<lambda>lrs lr2 n x l. n + 1), net_test = (\<lambda>n x. n),
      net_accuracy = (\<lambda>n ls. [1 / 2, 1]),
      to_one_hot = (\<lambda>ls k. 0),
      to_spike_train = (\<lambda>x y d. (replicate (nat d) x, replicate (nat d) y)),
      to_tensor = (\<lambda>step. Inr),
      ref_input = (\<lambda>x. x), ref_label = (\<lambda>x. x), ref_to_device = (\<lambda>r. r),
      ref_train = (\<lambda>r. r), ref_eval = (\<lambda>r. r),
      ref_learn = (\<lambda>lr r x y. r + 1), ref_test = (\<lambda>r x. r),
      ref_accuracy = (\<lambda>r y. 1 / 4)\<rparr>"

definition cfg0 :: args where
  "cfg0 =
     \<lparr>data = MNIST, just_ref = False, restore_path = None, batch_size = 2,
      batch_size_test = 2, n_steps = 4, no_save = False, n_test_interval = 2,
      n_test_samples = 4, n_iters = 2, n_iters_test = 2\<rparr>"

definition w0 :: "nat world" where
  "w0 = \<lparr>files = Map.empty, stdout = [], writer = []\<rparr>"

text \<open>The state of this run after set-up and after its four steps, and the same for any
  other arguments.\<close>

definition st_start :: "(nat, nat, nat, nat) state" where
  "st_start = projr (start_up cfg0 env0 w0)"

definition st_end :: "(nat, nat, nat, nat) state" where
  "st_end = projr (run_steps cfg0 env0 4 st_start)"

definition started :: "args \<Rightarrow> (nat, nat, nat, nat) state" where
  "started cfg = projr (start_up cfg env0 w0)"

definition stepped :: "args \<Rightarrow> nat \<Rightarrow> (nat, nat, nat, nat) state" where
  "stepped cfg k = projr (run_steps cfg env0 k (started cfg))"

text \<open>A run of 2000 steps with a single round and no held-out batch, and a property of its
  states that every step keeps.\<close>

definition cfg_long :: args where
  "cfg_long = cfg0\<lparr>n_steps := 2000, n_test_interval := 2000, n_test_samples := 0\<rparr>"

definition long_ok :: "(nat, nat, nat, nat) state \<Rightarrow> bool" where
  "long_ok st \<longleftrightarrow>
     (case snn st of None \<Rightarrow> False
      | Some s \<Rightarrow> length (acc_test s) = 1 \<and> length (slice_lr s) = 2)
     \<and> length (acc_test_ref st) = 1 \<and> all_test_data st = []
     \<and> length (label_train_counts st) = 10
     \<and> set (gen_train st) \<subseteq> set (train_data env0)"

definition st_long :: "(nat, nat, nat, nat) state" where
  "st_long = projr (start_up cfg_long env0 w0)"

definition st_long_end :: "(nat, nat, nat, nat) state" where
  "st_long_end = projr (run_steps cfg_long env0 2000 st_long)"

text \<open>Variants: a loader without batches, a loader whose last batch is short, saving disabled, reference-only mode, a test
  tensor too large for the device, and a restore path without a file.\<close>

definition env_empty :: "(nat, nat, nat, nat) env" where
  "env_empty = env0\<lparr>train_data := []\<rparr>"



definition cfg_ref :: args where
  "cfg_ref = cfg0\<lparr>just_ref := True\<rparr>"

definition env_oom :: "(nat, nat, nat, nat) env" where
  "env_oom =
     env0\<lparr>to_tensor :=
            (\<lambda>step xs. if 2 \<le> step \<and> 2 < length xs \<and> hd xs = 8
                        then Inl (RuntimeError ''out of memory'') else Inr xs)\<rparr>"

definition cfg_oom :: args where
  "cfg_oom = cfg0\<lparr>n_iters_test := 3\<rparr>"

definition st_oom :: "(nat, nat, nat, nat) state" where
  "st_oom = projr (start_up cfg_oom env_oom w0)"

definition st_oom_stepped :: "(nat, nat, nat, nat) state" where
  "st_oom_stepped = projr (run_steps cfg_oom env_oom 2 st_oom)"

definition st_oom_trained :: "(nat, nat, nat, nat) state" where
  "st_oom_trained = projr (train_phase cfg_oom env_oom 2 st_oom_stepped)"

definition st_oom_tested :: "(nat, nat, nat, nat) state" where
  "st_oom_tested =
     projr (for_each (test_batch cfg_oom env_oom 2 1)
              (take 1 (enumerate_py (all_test_data st_oom_trained))) st_oom_trained)"

definition cfg_missing :: args where
  "cfg_missing = cfg0\<lparr>restore_path := Some ''missing.pth''\<rparr>"

definition cfg_ref_missing :: args where
  "cfg_ref_missing = cfg0\<lparr>just_ref := True, restore_path := Some ''missing.pth''\<rparr>"

section \<open>Verification\<close>

subsection \<open>Sequencing and frames of the phases\<close>

lemma then_do_Inr [simp]: "then_do (Inr s) f = f s"
  by (simp add: then_do_def)

lemma then_do_Inl [simp]: "then_do (Inl e) f = Inl e"
  by (simp add: then_do_def)

lemma then_do_eq_Inr: "then_do r f = Inr s' \<longleftrightarrow> (\<exists>s. r = Inr s \<and> f s = Inr s')"
  by (cases r) simp_all

lemma adjust_lr_rates:
  assumes "adjust_lr cfg step st = Inr st'" and "just_ref cfg \<longrightarrow> snn st = None"
  shows "learning_rates st' =
           (if (step + 1) mod 1000 = 0 then map (\<lambda>lr. lr / 2) (learning_rates st)
            else learning_rates st)"
    and "snn st' = None \<longleftrightarrow> snn st = None"
  using assms
  by (auto simp: adjust_lr_def learning_rates_def say_def split: if_splits option.splits sum.splits)

lemma next_batch_rates:
  assumes "next_batch env st = Inr (b, st')"
  shows "learning_rates st' = learning_rates st" and "snn st' = snn st"
  using assms
  by (auto simp: next_batch_def learning_rates_def split: list.splits)

lemma train_snn_rates:
  assumes "train_snn cfg env step x y st = Inr st'"
  shows "learning_rates st' = learning_rates st" and "snn st' = None \<longleftrightarrow> snn st = None"
  using assms
  by (auto simp: train_snn_def learning_rates_def say_def split: if_splits option.splits sum.splits prod.splits)

lemma train_ref_rates:
  shows "learning_rates (train_ref env x y st) = learning_rates st" and "snn (train_ref env x y st) = snn st"
  by (auto simp: train_ref_def learning_rates_def)

lemma train_phase_Inr:
  "train_phase cfg env step st = Inr st' \<longleftrightarrow>
     (\<exists>st1 x labels st2 counts st4.
        adjust_lr cfg step st = Inr st1 \<and>
        next_batch env st1 = Inr ((x, labels), st2) \<and>
        count_labels labels (label_train_counts st2) = Inr counts \<and>
        train_snn cfg env step x (to_one_hot env labels (target_size (data cfg)))
          (st2\<lparr>label_train_counts := counts\<rparr>) = Inr st4 \<and>
        st' = train_ref env x (to_one_hot env labels (target_size (data cfg))) st4)"
proof (cases "adjust_lr cfg step st")
  case (Inl e)
  then show ?thesis by (simp add: train_phase_def)
next
  case a: (Inr st1)
  show ?thesis
  proof (cases "next_batch env st1")
    case (Inl e)
    then show ?thesis using a by (simp add: train_phase_def)
  next
    case (Inr p)
    obtain x labels st2 where p: "p = ((x, labels), st2)" by (metis surj_pair)
    show ?thesis
    proof (cases "count_labels labels (label_train_counts st2)")
      case (Inl e)
      then show ?thesis using a Inr p by (simp add: train_phase_def)
    next
      case c: (Inr counts)
      show ?thesis using a Inr p c
        by (auto simp: train_phase_def Let_def then_do_eq_Inr)
    qed
  qed
qed

lemma train_phase_rates:
  assumes "train_phase cfg env step st = Inr st'" and "just_ref cfg \<longrightarrow> snn st = None"
  shows "learning_rates st' =
           (if (step + 1) mod 1000 = 0 then map (\<lambda>lr. lr / 2) (learning_rates st)
            else learning_rates st)"
    and "snn st' = None \<longleftrightarrow> snn st = None"
proof -
  from assms(1) obtain st1 x labels st2 counts st4 where
    a: "adjust_lr cfg step st = Inr st1" and
    n: "next_batch env st1 = Inr ((x, labels), st2)" and
    t: "train_snn cfg env step x (to_one_hot env labels (target_size (data cfg)))
          (st2\<lparr>label_train_counts := counts\<rparr>) = Inr st4" and
    r: "st' = train_ref env x (to_one_hot env labels (target_size (data cfg))) st4"
    unfolding train_phase_Inr by blast
  have c: "learning_rates (st2\<lparr>label_train_counts := counts\<rparr>) = learning_rates st2"
    by (simp add: learning_rates_def)
  show "learning_rates st' =
           (if (step + 1) mod 1000 = 0 then map (\<lambda>lr. lr / 2) (learning_rates st)
            else learning_rates st)"
    using adjust_lr_rates(1)[OF a assms(2)] next_batch_rates(1)[OF n] train_snn_rates(1)[OF t] c
    by (simp add: r train_ref_rates)
  show "snn st' = None \<longleftrightarrow> snn st = None"
    using adjust_lr_rates(2)[OF a assms(2)] next_batch_rates(2)[OF n] train_snn_rates(2)[OF t]
    by (simp add: r train_ref_rates)
qed

lemma tested_steps_append: "tested_steps (xs @ ys) = tested_steps xs @ tested_steps ys"
  by (induction xs rule: tested_steps.induct) simp_all

lemma tested_steps_say_Plain [simp]:
  "tested_steps (stdout (world (say (Plain s) st))) = tested_steps (stdout (world st))"
  "tested_steps (stdout (world (say (Training s acc) st))) = tested_steps (stdout (world st))"
  "tested_steps (stdout (world (say (Percentages c) st))) = tested_steps (stdout (world st))"
  "tested_steps (stdout (world (say (Testing t a b) st))) = tested_steps (stdout (world st)) @ [t]"
  by (simp_all add: say_def py_print_def tested_steps_append)

lemma say_fields [simp]:
  "snn (say l st) = snn st" "ref_net (say l st) = ref_net st" "ref_lr (say l st) = ref_lr st"
  "acc_test_ref (say l st) = acc_test_ref st" "gen_train (say l st) = gen_train st"
  "all_test_data (say l st) = all_test_data st"
  "label_train_counts (say l st) = label_train_counts st"
  "files (world (say l st)) = files (world st)" "writer (world (say l st)) = writer (world st)"
  by (simp_all add: say_def py_print_def)

lemma adjust_lr_frame:
  assumes "adjust_lr cfg step st = Inr st'"
  shows "evaluation_view st' = evaluation_view st \<and> all_test_data st' = all_test_data st
         \<and> gen_train st' = gen_train st \<and> label_train_counts st' = label_train_counts st
         \<and> (snn st' = None \<longleftrightarrow> snn st = None)"
  using assms
  by (auto simp: adjust_lr_def evaluation_view_def dashes_def split: if_splits option.splits sum.splits)

lemma next_batch_frame:
  assumes "next_batch env st = Inr (b, st')"
  shows "evaluation_view st' = evaluation_view st \<and> all_test_data st' = all_test_data st
         \<and> label_train_counts st' = label_train_counts st \<and> learning_rates st' = learning_rates st
         \<and> snn st' = snn st"
  using assms
  by (auto simp: next_batch_def evaluation_view_def learning_rates_def split: list.splits)

lemma train_snn_frame:
  assumes "train_snn cfg env step x y st = Inr st'"
  shows "evaluation_view st' = evaluation_view st \<and> all_test_data st' = all_test_data st
         \<and> training_view st' = training_view st \<and> (snn st' = None \<longleftrightarrow> snn st = None)"
  using assms
  by (auto simp: train_snn_def evaluation_view_def training_view_def learning_rates_def
           split: if_splits option.splits sum.splits prod.splits)

lemma train_ref_frame:
  "evaluation_view (train_ref env x y st) = evaluation_view st"
  "all_test_data (train_ref env x y st) = all_test_data st"
  "training_view (train_ref env x y st) = training_view st"
  "snn (train_ref env x y st) = snn st"
  by (simp_all add: train_ref_def evaluation_view_def training_view_def learning_rates_def)

lemma train_phase_frame:
  assumes "train_phase cfg env step st = Inr st'"
  shows "evaluation_view st' = evaluation_view st \<and> all_test_data st' = all_test_data st
         \<and> (snn st' = None \<longleftrightarrow> snn st = None)"
proof -
  from assms obtain st1 x labels st2 counts st4 where
    a: "adjust_lr cfg step st = Inr st1" and
    n: "next_batch env st1 = Inr ((x, labels), st2)" and
    t: "train_snn cfg env step x (to_one_hot env labels (target_size (data cfg)))
          (st2\<lparr>label_train_counts := counts\<rparr>) = Inr st4" and
    r: "st' = train_ref env x (to_one_hot env labels (target_size (data cfg))) st4"
    unfolding train_phase_Inr by blast
  have c: "evaluation_view (st2\<lparr>label_train_counts := counts\<rparr>) = evaluation_view st2"
    by (simp add: evaluation_view_def)
  show ?thesis
    using adjust_lr_frame[OF a] next_batch_frame[OF n] train_snn_frame[OF t] c
    by (simp add: r train_ref_frame)
qed

lemma for_each_append:
  "for_each f (xs @ ys) s = then_do (for_each f xs s) (for_each f ys)"
  by (induction xs arbitrary: s) (auto split: sum.splits)

lemma for_each_snoc_Inr:
  "for_each f (xs @ [x]) s = Inr s' \<longleftrightarrow> (\<exists>s1. for_each f xs s = Inr s1 \<and> f x s1 = Inr s')"
proof -
  have "for_each f [x] t = f x t" for t by (cases "f x t") simp_all
  then show ?thesis by (simp add: for_each_append then_do_eq_Inr)
qed

lemma enumerate_py_snoc:
  "enumerate_py (bs @ [b]) = enumerate_py bs @ [(int (length bs), b)]"
  by (simp add: enumerate_py_def)

lemma enumerate_py_Nil [simp]: "enumerate_py [] = []"
  by (simp add: enumerate_py_def)

lemma np_index_Inr:
  assumes "np_index n i = Inr j" and "0 \<le> i"
  shows "j = nat i \<and> nat i < n"
  using assms by (auto simp: np_index_def split: if_splits)

lemma broadcast_row_Inr:
  assumes "broadcast_row m v = Inr row"
  shows "length row = m \<and> list_all (\<lambda>c. c \<noteq> None) row"
  using assms by (auto simp: broadcast_row_def list_all_iff split: if_splits)

lemma test_ref_Inr:
  assumes "test_ref env step r i x y st = Inr st'" and "0 \<le> r" and "0 \<le> i"
  shows "nat r < length (acc_test_ref st) \<and> nat i < length (acc_test_ref st ! nat r)
         \<and> (\<exists>v. acc_test_ref st' = (acc_test_ref st)[nat r := (acc_test_ref st ! nat r)[nat i := Some v]])
         \<and> snn st' = snn st \<and> training_view st' = training_view st
         \<and> all_test_data st' = all_test_data st \<and> files (world st') = files (world st)
         \<and> stdout (world st') = stdout (world st)"
proof -
  from assms(1) obtain r' i' where
    r: "np_index (length (acc_test_ref st)) r = Inr r'" and
    i: "np_index (length (acc_test_ref st ! r')) i = Inr i'"
    by (auto simp: test_ref_def set_cell2_def Let_def split: sum.splits)
  from np_index_Inr[OF r assms(2)] have r': "r' = nat r" "nat r < length (acc_test_ref st)" by auto
  from np_index_Inr[OF i assms(3)] have i': "i' = nat i" "nat i < length (acc_test_ref st ! nat r)"
    using r' by auto
  show ?thesis
    using assms(1) r i r' i'
    by (auto simp: test_ref_def set_cell2_def Let_def training_view_def learning_rates_def
          write_stats_def)
qed

lemma test_snn_Inr:
  assumes "test_snn cfg env step r i x y st = Inr st'" and "0 \<le> r" and "0 \<le> i"
  shows "acc_test_ref st' = acc_test_ref st \<and> training_view st' = training_view st
         \<and> all_test_data st' = all_test_data st \<and> files (world st') = files (world st)
         \<and> stdout (world st') = stdout (world st)
         \<and> (if just_ref cfg then st' = st
             else (\<exists>s s' row. snn st = Some s \<and> snn st' = Some s'
                    \<and> nat r < length (acc_test s) \<and> nat i < length (acc_test s ! nat r)
                    \<and> length row = length (acc_test s ! nat r ! nat i)
                    \<and> list_all (\<lambda>c. c \<noteq> None) row
                    \<and> acc_test s' = (acc_test s)[nat r := (acc_test s ! nat r)[nat i := row]]))"
proof (cases "just_ref cfg")
  case True
  then show ?thesis using assms(1) by (simp add: test_snn_def)
next
  case False
  from assms(1) False obtain s n' v a where
    s: "snn st = Some s" and
    a: "set_row3 (acc_test s) r i v = Inr a" and
    st': "st' = st\<lparr>snn := Some (s\<lparr>net := n', acc_test := a\<rparr>),
                   world := (if i = 0 then write_stats (NetStats step ''_batch_0'') (world st)
                             else world st)\<rparr>"
    by (auto simp: test_snn_def split: option.splits sum.splits prod.splits error.splits)
  from a obtain r' i' row where
    r: "np_index (length (acc_test s)) r = Inr r'" and
    i: "np_index (length (acc_test s ! r')) i = Inr i'" and
    b: "broadcast_row (length (acc_test s ! r' ! i')) v = Inr row" and
    a': "a = (acc_test s)[r' := (acc_test s ! r')[i' := row]]"
    by (auto simp: set_row3_def split: sum.splits)
  from np_index_Inr[OF r assms(2)] have r': "r' = nat r" "nat r < length (acc_test s)" by auto
  from np_index_Inr[OF i assms(3)] have i': "i' = nat i" "nat i < length (acc_test s ! nat r)"
    using r' by auto
  show ?thesis
    using False s st' a' r' i' broadcast_row_Inr[OF b]
    by (auto simp: training_view_def learning_rates_def write_stats_def)
qed

lemma test_batch_Inr:
  assumes "test_batch cfg env step r (i, x, y) st = Inr st'" and "0 \<le> r" and "0 \<le> i"
  shows "training_view st' = training_view st \<and> all_test_data st' = all_test_data st
         \<and> files (world st') = files (world st) \<and> stdout (world st') = stdout (world st)
         \<and> (snn st' = None \<longleftrightarrow> snn st = None)"
    and "nat r < length (acc_test_ref st) \<and> nat i < length (acc_test_ref st ! nat r)
         \<and> (\<exists>v. acc_test_ref st' = (acc_test_ref st)[nat r := (acc_test_ref st ! nat r)[nat i := Some v]])"
    and "if just_ref cfg then snn st' = snn st
         else (\<exists>s s' row. snn st = Some s \<and> snn st' = Some s'
                \<and> nat r < length (acc_test s) \<and> nat i < length (acc_test s ! nat r)
                \<and> length row = length (acc_test s ! nat r ! nat i)
                \<and> list_all (\<lambda>c. c \<noteq> None) row
                \<and> acc_test s' = (acc_test s)[nat r := (acc_test s ! nat r)[nat i := row]])"
proof -
  from assms(1) obtain st1 where
    a: "test_snn cfg env step r i x y st = Inr st1" and
    b: "test_ref env step r i x y st1 = Inr st'"
    by (auto simp: test_batch_def then_do_eq_Inr)
  note A = test_snn_Inr[OF a assms(2,3)] and B = test_ref_Inr[OF b assms(2,3)]
  show "training_view st' = training_view st \<and> all_test_data st' = all_test_data st
         \<and> files (world st') = files (world st) \<and> stdout (world st') = stdout (world st)
         \<and> (snn st' = None \<longleftrightarrow> snn st = None)"
    using A B by (auto split: if_splits)
  show "nat r < length (acc_test_ref st) \<and> nat i < length (acc_test_ref st ! nat r)
         \<and> (\<exists>v. acc_test_ref st' = (acc_test_ref st)[nat r := (acc_test_ref st ! nat r)[nat i := Some v]])"
    using A B by simp
  show "if just_ref cfg then snn st' = snn st
         else (\<exists>s s' row. snn st = Some s \<and> snn st' = Some s'
                \<and> nat r < length (acc_test s) \<and> nat i < length (acc_test s ! nat r)
                \<and> length row = length (acc_test s ! nat r ! nat i)
                \<and> list_all (\<lambda>c. c \<noteq> None) row
                \<and> acc_test s' = (acc_test s)[nat r := (acc_test s ! nat r)[nat i := row]])"
    using A B by (auto split: if_splits)
qed

lemma fill_next:
  assumes "length xs = j" and "j < length row"
  shows "(xs @ drop j row)[j := v] = (xs @ [v]) @ drop (Suc j) row"
proof -
  have "(drop j row)[0 := v] = v # drop (Suc j) row"
    using assms(2) by (metis Cons_nth_drop_Suc list_update_code(2))
  then show ?thesis using assms(1) by (simp add: list_update_append)
qed

lemma test_loop_frame:
  assumes "for_each (test_batch cfg env step r) (enumerate_py bs) st = Inr st'" and "0 \<le> r"
  shows "training_view st' = training_view st \<and> all_test_data st' = all_test_data st
         \<and> files (world st') = files (world st) \<and> stdout (world st') = stdout (world st)
         \<and> (snn st' = None \<longleftrightarrow> snn st = None)"
  using assms(1)
proof (induction bs arbitrary: st' rule: rev_induct)
  case Nil
  then show ?case by simp
next
  case (snoc b bs)
  from snoc.prems obtain st1 where
    a: "for_each (test_batch cfg env step r) (enumerate_py bs) st = Inr st1" and
    b: "test_batch cfg env step r (int (length bs), b) st1 = Inr st'"
    by (auto simp: enumerate_py_snoc for_each_snoc_Inr)
  obtain x y where xy: "b = (x, y)" by (cases b)
  show ?case
    using snoc.IH[OF a] test_batch_Inr(1)[OF b[unfolded xy] assms(2)] by simp
qed

lemma test_loop_ref:
  assumes "for_each (test_batch cfg env step r) (enumerate_py bs) st = Inr st'" and "0 \<le> r"
  shows "(\<exists>vs. length vs = length bs
            \<and> acc_test_ref st' =
                (acc_test_ref st)[nat r := map Some vs @ drop (length bs) (acc_test_ref st ! nat r)])
         \<and> (bs \<noteq> [] \<longrightarrow> nat r < length (acc_test_ref st)
                          \<and> length bs \<le> length (acc_test_ref st ! nat r))"
  using assms(1)
proof (induction bs arbitrary: st' rule: rev_induct)
  case Nil
  then show ?case by simp
next
  case (snoc b bs)
  let ?A = "acc_test_ref st" and ?j = "length bs"
  from snoc.prems obtain st1 where
    a: "for_each (test_batch cfg env step r) (enumerate_py bs) st = Inr st1" and
    b: "test_batch cfg env step r (int ?j, b) st1 = Inr st'"
    by (auto simp: enumerate_py_snoc for_each_snoc_Inr)
  obtain x y where xy: "b = (x, y)" by (cases b)
  from snoc.IH[OF a] obtain vs where
    vs: "length vs = ?j" and
    A1: "acc_test_ref st1 = ?A[nat r := map Some vs @ drop ?j (?A ! nat r)]" and
    le: "bs \<noteq> [] \<longrightarrow> nat r < length ?A \<and> ?j \<le> length (?A ! nat r)"
    by blast
  have j_le: "?j \<le> length (?A ! nat r)" using le by (cases bs) auto
  from test_batch_Inr(2)[OF b[unfolded xy] assms(2)] obtain v where
    r1: "nat r < length (acc_test_ref st1)" and
    i1: "?j < length (acc_test_ref st1 ! nat r)" and
    A': "acc_test_ref st' = (acc_test_ref st1)[nat r := (acc_test_ref st1 ! nat r)[?j := Some v]]"
    by auto
  have r: "nat r < length ?A" using r1 A1 by simp
  have row1: "acc_test_ref st1 ! nat r = map Some vs @ drop ?j (?A ! nat r)"
    using A1 r by simp
  have j_lt: "?j < length (?A ! nat r)" using i1 row1 vs j_le by simp
  have "(map Some vs @ drop ?j (?A ! nat r))[?j := Some v]
          = (map Some vs @ [Some v]) @ drop (Suc ?j) (?A ! nat r)"
    using fill_next[of "map Some vs" ?j "?A ! nat r" "Some v"] vs j_lt by simp
  then have "acc_test_ref st' =
               ?A[nat r := map Some (vs @ [v]) @ drop (length (bs @ [b])) (?A ! nat r)]"
    using A' A1 row1 by simp
  moreover have "length (vs @ [v]) = length (bs @ [b])" using vs by simp
  ultimately show ?case using r j_lt by (metis Suc_leI length_append_singleton)
qed

lemma test_loop_snn:
  assumes "for_each (test_batch cfg env step r) (enumerate_py bs) st = Inr st'" and "0 \<le> r"
    and "\<not> just_ref cfg" and "snn st = Some s"
  shows "\<exists>s' rows. snn st' = Some s' \<and> length rows = length bs
           \<and> (\<forall>j < length bs. length (rows ! j) = length (acc_test s ! nat r ! j)
                                \<and> list_all (\<lambda>c. c \<noteq> None) (rows ! j))
           \<and> acc_test s' = (acc_test s)[nat r := rows @ drop (length bs) (acc_test s ! nat r)]
           \<and> (bs \<noteq> [] \<longrightarrow> nat r < length (acc_test s) \<and> length bs \<le> length (acc_test s ! nat r))"
  using assms(1)
proof (induction bs arbitrary: st' rule: rev_induct)
  case Nil
  then show ?case using assms(4) by simp
next
  case (snoc b bs)
  let ?A = "acc_test s" and ?j = "length bs"
  from snoc.prems obtain st1 where
    a: "for_each (test_batch cfg env step r) (enumerate_py bs) st = Inr st1" and
    b: "test_batch cfg env step r (int ?j, b) st1 = Inr st'"
    by (auto simp: enumerate_py_snoc for_each_snoc_Inr)
  obtain x y where xy: "b = (x, y)" by (cases b)
  from snoc.IH[OF a] obtain s1 rows where
    s1: "snn st1 = Some s1" and
    rows: "length rows = ?j" and
    ok: "\<forall>j < ?j. length (rows ! j) = length (?A ! nat r ! j) \<and> list_all (\<lambda>c. c \<noteq> None) (rows ! j)" and
    A1: "acc_test s1 = ?A[nat r := rows @ drop ?j (?A ! nat r)]" and
    le: "bs \<noteq> [] \<longrightarrow> nat r < length ?A \<and> ?j \<le> length (?A ! nat r)"
    by blast
  have j_le: "?j \<le> length (?A ! nat r)" using le by (cases bs) auto
  from test_batch_Inr(3)[OF b[unfolded xy] assms(2)] assms(3) s1 obtain s' row where
    s': "snn st' = Some s'" and
    r1: "nat r < length (acc_test s1)" and
    i1: "?j < length (acc_test s1 ! nat r)" and
    row: "length row = length (acc_test s1 ! nat r ! ?j)" "list_all (\<lambda>c. c \<noteq> None) row" and
    A': "acc_test s' = (acc_test s1)[nat r := (acc_test s1 ! nat r)[?j := row]]"
    by auto
  have r: "nat r < length ?A" using r1 A1 by simp
  have row1: "acc_test s1 ! nat r = rows @ drop ?j (?A ! nat r)"
    using A1 r by simp
  have j_lt: "?j < length (?A ! nat r)" using i1 row1 rows j_le by simp
  have len_row: "length row = length (?A ! nat r ! ?j)"
    using row(1) row1 rows j_lt by (simp add: nth_append)
  have "(rows @ drop ?j (?A ! nat r))[?j := row] = (rows @ [row]) @ drop (Suc ?j) (?A ! nat r)"
    using fill_next[of rows ?j "?A ! nat r" row] rows j_lt by simp
  then have upd: "acc_test s' = ?A[nat r := (rows @ [row]) @ drop (length (bs @ [b])) (?A ! nat r)]"
    using A' A1 row1 by simp
  have all: "\<forall>j < length (bs @ [b]). length ((rows @ [row]) ! j) = length (?A ! nat r ! j)
               \<and> list_all (\<lambda>c. c \<noteq> None) ((rows @ [row]) ! j)"
  proof (intro allI impI)
    fix j assume "j < length (bs @ [b])"
    then consider "j < ?j" | "j = ?j" by fastforce
    then show "length ((rows @ [row]) ! j) = length (?A ! nat r ! j)
               \<and> list_all (\<lambda>c. c \<noteq> None) ((rows @ [row]) ! j)"
    proof cases
      case 1
      then show ?thesis using ok rows by (simp add: nth_append)
    next
      case 2
      then show ?thesis using len_row row(2) rows by (simp add: nth_append)
    qed
  qed
  have "length (rows @ [row]) = length (bs @ [b])" using rows by simp
  moreover have "nat r < length ?A \<and> length (bs @ [b]) \<le> length (?A ! nat r)"
    using r j_lt by simp
  ultimately show ?case using s' upd all by blast
qed

lemma test_loop_just_ref:
  assumes "for_each (test_batch cfg env step r) (enumerate_py bs) st = Inr st'" and "0 \<le> r"
    and "just_ref cfg"
  shows "snn st' = snn st"
  using assms(1)
proof (induction bs arbitrary: st' rule: rev_induct)
  case Nil
  then show ?case by simp
next
  case (snoc b bs)
  from snoc.prems obtain st1 where
    a: "for_each (test_batch cfg env step r) (enumerate_py bs) st = Inr st1" and
    b: "test_batch cfg env step r (int (length bs), b) st1 = Inr st'"
    by (auto simp: enumerate_py_snoc for_each_snoc_Inr)
  obtain x y where xy: "b = (x, y)" by (cases b)
  show ?case
    using snoc.IH[OF a] test_batch_Inr(3)[OF b[unfolded xy] assms(2)] assms(3) by simp
qed

lemma save_round_Inr:
  assumes "save_round cfg env step st = Inr st'"
  shows "training_view st' = training_view st \<and> all_test_data st' = all_test_data st
         \<and> acc_test_ref st' = acc_test_ref st
         \<and> map_option acc_test (snn st') = map_option acc_test (snn st)
         \<and> (snn st' = None \<longleftrightarrow> snn st = None)
         \<and> tested_steps (stdout (world st')) = tested_steps (stdout (world st))"
    and "just_ref cfg \<or> no_save cfg \<Longrightarrow> st' = st"
    and "\<not> just_ref cfg \<Longrightarrow> \<not> no_save cfg \<Longrightarrow>
         \<exists>s. snn st = Some s \<and>
           files (world st') =
             (files (world st))
               (acc_test_path (out_dir env) \<mapsto> Npy3 (acc_test s),
                acc_test_ref_path (out_dir env) \<mapsto> Npy2 (acc_test_ref st),
                save_path (out_dir env) step \<mapsto> Pth (state_dict env (net_cpu env (net s))))"
  using assms
  by (auto simp: save_round_def training_view_def learning_rates_def Let_def py_print_def
        write_file_def dashes_def tested_steps_append split: if_splits option.splits)

lemma report_round_Inr:
  assumes "report_round cfg step r st = Inr st'"
  shows "training_view st' = training_view st \<and> all_test_data st' = all_test_data st
         \<and> acc_test_ref st' = acc_test_ref st \<and> snn st' = snn st
         \<and> files (world st') = files (world st)
         \<and> tested_steps (stdout (world st')) =
             tested_steps (stdout (world st)) @ [zfill 5 (str_int step)]"
    and "0 \<le> r \<Longrightarrow> nat r < length (acc_test_ref st)"
  using assms
  by (auto simp: report_round_def training_view_def learning_rates_def dashes_def
        dest: np_index_Inr split: if_splits option.splits sum.splits)

lemma take_Suc_update:
  assumes "R < length A"
  shows "take (Suc R) (A[R := x]) = take R A @ [x]"
  using assms by (simp add: take_Suc_conv_app_nth)

lemma list_all_drop_Suc:
  assumes "list_all P (drop R A)"
  shows "list_all P (drop (Suc R) A)"
proof -
  have "set (drop (Suc R) A) \<subseteq> set (drop R A)" by (rule set_drop_subset_set_drop) simp
  then show ?thesis using assms by (auto simp: list_all_iff)
qed

lemma list_all_update:
  assumes "list_all P A" and "P x"
  shows "list_all P (A[R := x])"
  using assms set_update_subset_insert[of A R x] by (auto simp: list_all_iff)

lemma rounds_recorded2_fill:
  assumes "rounds_recorded2 T N R A" and "R < T" and "length vs = N"
  shows "rounds_recorded2 T N (Suc R) (A[R := map Some vs])"
proof -
  have w: "written (map Some vs)" by (simp add: written_def list_all_iff)
  show ?thesis
    using assms w
    by (simp add: rounds_recorded2_def take_Suc_update list_all_drop_Suc list_all_update)
qed

lemma rounds_recorded3_fill:
  assumes "rounds_recorded3 T N S R A" and "R < T" and "length rows = N"
    and "\<forall>j < N. length (rows ! j) = S \<and> list_all (\<lambda>c. c \<noteq> None) (rows ! j)"
  shows "rounds_recorded3 T N S (Suc R) (A[R := rows])"
proof -
  have w: "list_all written rows" "list_all (\<lambda>row. length row = S) rows"
    using assms(3,4) by (auto simp: written_def list_all_length)
  show ?thesis
    using assms(1-3) w
    by (simp add: rounds_recorded3_def take_Suc_update list_all_drop_Suc list_all_update)
qed

lemma rounds_recorded2_row:
  assumes "rounds_recorded2 T N R A" and "r < T"
  shows "length (A ! r) = N"
  using assms by (simp add: rounds_recorded2_def list_all_length)

lemma rounds_recorded3_row:
  assumes "rounds_recorded3 T N S R A" and "r < T"
  shows "length (A ! r) = N" and "\<forall>j < N. length (A ! r ! j) = S"
  using assms by (auto simp: rounds_recorded3_def list_all_length)

lemma eval_round_Inr:
  "eval_round cfg env step st = Inr st' \<longleftrightarrow>
     (\<exists>b c. test_all cfg env step st = Inr b \<and> save_round cfg env step b = Inr c
            \<and> report_round cfg step (step div n_test_interval cfg) c = Inr st')"
  by (auto simp: eval_round_def then_do_eq_Inr)

lemma run_inv_cong:
  assumes "all_test_data st' = all_test_data st" and "acc_test_ref st' = acc_test_ref st"
    and "map_option acc_test (snn st') = map_option acc_test (snn st)"
  shows "run_inv cfg env T N R st' = run_inv cfg env T N R st"
  using assms by (auto simp: run_inv_def split: option.splits)

lemma test_all_inv:
  assumes t: "test_all cfg env step st = Inr b" and step: "0 \<le> step" and i: "0 < n_test_interval cfg"
    and inv: "run_inv cfg env T N R st" and R: "R = nat (step div n_test_interval cfg)"
    and RT: "R < T"
  shows "run_inv cfg env T N (Suc R) b"
proof -
  let ?r = "step div n_test_interval cfg"
  have r0: "0 \<le> ?r" using step i by (simp add: pos_imp_zdiv_nonneg_iff)
  have loop: "for_each (test_batch cfg env step ?r) (enumerate_py (all_test_data st)) st = Inr b"
    using t by (simp add: test_all_def)
  have len: "length (all_test_data st) = N" and
    A: "rounds_recorded2 T N R (acc_test_ref st)"
    using inv by (simp_all add: run_inv_def)
  have rowN: "length (acc_test_ref st ! R) = N" using rounds_recorded2_row[OF A RT] .
  from test_loop_ref[OF loop r0] obtain vs where
    vs: "length vs = N" and
    A': "acc_test_ref b = (acc_test_ref st)[R := map Some vs @ drop N (acc_test_ref st ! R)]"
    using len R by auto
  have A2: "rounds_recorded2 T N (Suc R) (acc_test_ref b)"
    using rounds_recorded2_fill[OF A RT vs] A' rowN by simp
  have frame: "all_test_data b = all_test_data st"
    using test_loop_frame[OF loop r0] by simp
  show ?thesis
  proof (cases "just_ref cfg")
    case True
    then have "snn b = snn st" using test_loop_just_ref[OF loop r0] by simp
    then show ?thesis using True inv A2 frame by (auto simp: run_inv_def split: option.splits)
  next
    case False
    then obtain s where s: "snn st = Some s" and
      B: "rounds_recorded3 T N (length (new_slice_lrs env)) R (acc_test s)"
      using inv by (auto simp: run_inv_def split: option.splits)
    note row = rounds_recorded3_row[OF B RT]
    from test_loop_snn[OF loop r0 False s] obtain s' rows where
      s': "snn b = Some s'" and rows: "length rows = N" and
      ok: "\<forall>j < N. length (rows ! j) = length (acc_test s ! R ! j)
                     \<and> list_all (\<lambda>c. c \<noteq> None) (rows ! j)" and
      B': "acc_test s' = (acc_test s)[R := rows @ drop N (acc_test s ! R)]"
      using len R by auto
    have "\<forall>j < N. length (rows ! j) = length (new_slice_lrs env)
                     \<and> list_all (\<lambda>c. c \<noteq> None) (rows ! j)"
      using ok row(2) by simp
    from rounds_recorded3_fill[OF B RT rows this]
    have "rounds_recorded3 T N (length (new_slice_lrs env)) (Suc R) (acc_test s')"
      using B' row(1) by simp
    then show ?thesis using False s' A2 frame len by (simp add: run_inv_def)
  qed
qed

lemma rounds_run_0 [simp]: "rounds_run i 0 = 0"
  by (simp add: rounds_run_def)

lemma rounds_run_Suc:
  "rounds_run i (Suc k) = (if int k mod i = 0 then Suc (rounds_run i k) else rounds_run i k)"
  by (simp add: rounds_run_def)

lemma div_pred:
  fixes i k :: int
  assumes "0 < i"
  shows "(k - 1) div i = (if k mod i = 0 then k div i - 1 else k div i)"
proof (cases "k mod i = 0")
  case True
  have "k - 1 = i * (k div i - 1) + (i - 1)"
    using True mult_div_mod_eq[of i k] by (simp add: algebra_simps)
  from int_div_pos_eq[OF this] assms True show ?thesis by simp
next
  case False
  have m: "0 \<le> k mod i" "k mod i < i" using assms by simp_all
  have "k - 1 = i * (k div i) + (k mod i - 1)"
    using mult_div_mod_eq[of i k] by simp
  from int_div_pos_eq[OF this] m False show ?thesis by simp
qed

lemma rounds_run_closed:
  assumes "0 < i"
  shows "rounds_run i k = (if k = 0 then 0 else nat ((int k - 1) div i) + 1)"
proof (induction k)
  case 0
  show ?case by simp
next
  case (Suc k)
  have nn: "0 \<le> int k div i" using assms by (simp add: pos_imp_zdiv_nonneg_iff)
  show ?case
  proof (cases "int k mod i = 0")
    case True
    show ?thesis
    proof (cases "k = 0")
      case True
      then show ?thesis by (simp add: rounds_run_Suc)
    next
      case False
      have "0 < int k div i"
        using False True assms nn by (metis div_0 mod_0 less_le of_nat_0_eq_iff mult_div_mod_eq mult_zero_right add.right_neutral)
      then show ?thesis
        using Suc True False div_pred[OF assms, of "int k"] by (simp add: rounds_run_Suc nat_diff_distrib)
    qed
  next
    case False
    then have "k \<noteq> 0" by (cases k) auto
    then show ?thesis
      using Suc False div_pred[OF assms, of "int k"] by (simp add: rounds_run_Suc)
  qed
qed

lemma rounds_run_at_round:
  assumes "0 < i" and "int k mod i = 0"
  shows "rounds_run i k = nat (int k div i)"
proof (cases "k = 0")
  case True
  then show ?thesis by simp
next
  case False
  have nn: "0 \<le> int k div i" using assms by (simp add: pos_imp_zdiv_nonneg_iff)
  have "0 < int k div i"
    using False assms nn by (metis div_0 mod_0 less_le of_nat_0_eq_iff mult_div_mod_eq mult_zero_right add.right_neutral)
  then show ?thesis
    using False assms div_pred[OF assms(1), of "int k"] by (simp add: rounds_run_closed nat_diff_distrib)
qed

lemma ceil_div_Inr:
  assumes "ceil_div a b = Inr c"
  shows "b \<noteq> 0 \<and> c = \<lceil>real_of_int a / real_of_int b\<rceil>"
  using assms by (auto simp: ceil_div_def ceiling_divide_eq_div split: if_splits)

lemma rounds_recorded2_empty:
  "rounds_recorded2 T N 0 (replicate T (replicate N None))"
  by (simp add: rounds_recorded2_def blank_def list_all_iff)

lemma rounds_recorded3_empty:
  "rounds_recorded3 T N S 0 (replicate T (replicate N (replicate S None)))"
  by (simp add: rounds_recorded3_def blank_def list_all_iff)

lemma restore_stdout:
  assumes "restore cfg env n w = Inr (n', w')"
  shows "tested_steps (stdout w') = tested_steps (stdout w) \<and> files w' = files w"
  using assms
  by (auto simp: restore_def Let_def py_print_def dashes_def tested_steps_append
        split: option.splits if_splits contents.splits sum.splits)

lemma setup_net_Inr:
  assumes "setup_net cfg env T N w = Inr (s, w')"
  shows "tested_steps (stdout w') = tested_steps (stdout w) \<and> files w' = files w"
    and "case s of
           None \<Rightarrow> just_ref cfg
         | Some x \<Rightarrow> \<not> just_ref cfg \<and> 0 \<le> T \<and> 0 \<le> N
                     \<and> acc_test x = replicate (nat T) (replicate (nat N)
                                       (replicate (length (new_slice_lrs env)) None))
                     \<and> slice_lr x = new_slice_lrs env \<and> slice_lr2 x = new_lr2 env"
  using assms restore_stdout[of cfg env "new_net env" w]
  by (auto simp: setup_net_def np_empty3_def split: if_splits sum.splits prod.splits)

lemma save_metadata_files:
  "tested_steps (stdout (save_metadata cfg d w)) = tested_steps (stdout w)"
  "files (save_metadata cfg d w) (acc_test_path d) = files w (acc_test_path d)"
  "files (save_metadata cfg d w) (acc_test_ref_path d) = files w (acc_test_ref_path d)"
  "files (save_metadata cfg d w) (save_path d step) = files w (save_path d step)"
  by (simp_all add: save_metadata_def write_file_def acc_test_path_def acc_test_ref_path_def
        save_path_def path_join_def)

lemma start_up_Inr:
  assumes "start_up cfg env w = Inr st0"
  shows "batch_size_test cfg \<noteq> 0 \<and> n_test_interval cfg \<noteq> 0
         \<and> 0 \<le> n_test cfg \<and> 0 \<le> n_tests_total cfg"
    and "run_inv cfg env (nat (n_tests_total cfg)) (nat (n_test cfg)) 0 st0"
    and "gen_train st0 = train_data env"
    and "label_train_counts st0 = replicate (nat (target_size (data cfg))) 0"
    and "learning_rates st0 =
           new_ref_lr env # (if just_ref cfg then [] else new_lr2 env # new_slice_lrs env)"
    and "tested_steps (stdout (world st0)) = tested_steps (stdout w)"
    and "files (world st0) (acc_test_path (out_dir env)) = files w (acc_test_path (out_dir env))"
    and "files (world st0) (acc_test_ref_path (out_dir env)) = files w (acc_test_ref_path (out_dir env))"
    and "files (world st0) (save_path (out_dir env) step) = files w (save_path (out_dir env) step)"
proof -
  from assms obtain N T s w1 a_ref tests where
    N: "ceil_div (n_test_samples cfg) (batch_size_test cfg) = Inr N" and
    T: "ceil_div (n_steps cfg) (n_test_interval cfg) = Inr T" and
    s: "setup_net cfg env T N w = Inr (s, w1)" and
    a: "np_empty2 T N = Inr a_ref" and
    t: "take_tests N (test_loader env) = Inr tests" and
    st0: "st0 = \<lparr>snn = s,
               ref_net = ref_to_device env (new_ref_net env),
               ref_lr = new_ref_lr env,
               acc_test_ref = a_ref,
               gen_train = iter_train env,
               all_test_data =
                 map (\<lambda>(samples, labels). (samples, to_one_hot env labels (target_size (data cfg)))) tests,
               label_train_counts = replicate (nat (target_size (data cfg))) 0,
               world = save_metadata cfg (out_dir env) w1\<rparr>"
    by (auto simp: start_up_def Let_def split: sum.splits prod.splits)
  note N' = ceil_div_Inr[OF N] and T' = ceil_div_Inr[OF T]
  have Nn: "N = n_test cfg" and Tn: "T = n_tests_total cfg"
    using N' T' by (simp_all add: n_test_def n_tests_total_def)
  have pos: "0 \<le> T" "0 \<le> N" and a_ref: "a_ref = replicate (nat T) (replicate (nat N) None)"
    using a by (auto simp: np_empty2_def split: if_splits)
  have len: "length tests = nat N"
    using t pos by (auto simp: take_tests_def split: if_splits)
  note S = setup_net_Inr[OF s]
  show "batch_size_test cfg \<noteq> 0 \<and> n_test_interval cfg \<noteq> 0
         \<and> 0 \<le> n_test cfg \<and> 0 \<le> n_tests_total cfg"
    using N' T' pos Nn Tn by simp
  show "run_inv cfg env (nat (n_tests_total cfg)) (nat (n_test cfg)) 0 st0"
    using S(2) len a_ref Nn Tn
    by (auto simp: run_inv_def st0 rounds_recorded2_empty rounds_recorded3_empty split: option.splits)
  show "gen_train st0 = train_data env" by (simp add: st0 iter_train_def)
  show "label_train_counts st0 = replicate (nat (target_size (data cfg))) 0" by (simp add: st0)
  show "learning_rates st0 =
           new_ref_lr env # (if just_ref cfg then [] else new_lr2 env # new_slice_lrs env)"
    using S(2) by (auto simp: st0 learning_rates_def split: option.splits)
  show "tested_steps (stdout (world st0)) = tested_steps (stdout w)"
    using S(1) by (simp add: st0 save_metadata_files)
  show "files (world st0) (acc_test_path (out_dir env)) = files w (acc_test_path (out_dir env))"
    using S(1) by (simp add: st0 save_metadata_files)
  show "files (world st0) (acc_test_ref_path (out_dir env)) = files w (acc_test_ref_path (out_dir env))"
    using S(1) by (simp add: st0 save_metadata_files)
  show "files (world st0) (save_path (out_dir env) step) = files w (save_path (out_dir env) step)"
    using S(1) by (simp add: st0 save_metadata_files)
qed

lemma train_step_Inr:
  "train_step cfg env step st = Inr st' \<longleftrightarrow>
     n_test_interval cfg \<noteq> 0 \<and>
     (\<exists>a. train_phase cfg env step st = Inr a \<and>
          (if step mod n_test_interval cfg = 0 then eval_round cfg env step a = Inr st'
           else st' = a))"
  by (auto simp: train_step_def then_do_eq_Inr)

lemma run_steps_Suc_Inr:
  "run_steps cfg env (Suc k) st0 = Inr st \<longleftrightarrow>
     (\<exists>a. run_steps cfg env k st0 = Inr a \<and> train_step cfg env (int k) a = Inr st)"
  by (cases "run_steps cfg env k st0") simp_all

lemma run_steps_prefix:
  assumes "run_steps cfg env k st0 = Inr st" and "j \<le> k"
  shows "\<exists>a. run_steps cfg env j st0 = Inr a"
  using assms
proof (induction k arbitrary: st)
  case 0
  then show ?case by simp
next
  case (Suc k)
  show ?case
  proof (cases "j = Suc k")
    case True
    then show ?thesis using Suc.prems(1) by blast
  next
    case False
    then have "j \<le> k" using Suc.prems(2) by simp
    then show ?thesis using Suc.IH Suc.prems(1) unfolding run_steps_Suc_Inr by blast
  qed
qed

lemma run_steps_error:
  assumes "run_steps cfg env k st0 = Inl e" and "k \<le> n"
  shows "run_steps cfg env n st0 = Inl e"
  using assms(2,1) by (induction rule: dec_induct) simp_all

text \<open>What an evaluation round does to the arrays and to the report lines.\<close>

lemma eval_round_inv:
  assumes e: "eval_round cfg env (int k) st = Inr st'" and i: "0 < n_test_interval cfg"
    and m: "int k mod n_test_interval cfg = 0"
    and inv: "run_inv cfg env T N (rounds_run (n_test_interval cfg) k) st"
  shows "run_inv cfg env T N (Suc (rounds_run (n_test_interval cfg) k)) st'"
    and "tested_steps (stdout (world st')) =
           tested_steps (stdout (world st)) @ [zfill 5 (str_int (int k))]"
    and "training_view st' = training_view st"
proof -
  let ?i = "n_test_interval cfg"
  let ?R = "rounds_run ?i k"
  from e obtain b c where
    t: "test_all cfg env (int k) st = Inr b" and
    s: "save_round cfg env (int k) b = Inr c" and
    r: "report_round cfg (int k) (int k div ?i) c = Inr st'"
    unfolding eval_round_Inr by blast
  have R: "?R = nat (int k div ?i)" using rounds_run_at_round[OF i m] .
  have r0: "0 \<le> int k div ?i" using i by (simp add: pos_imp_zdiv_nonneg_iff)
  have loop: "for_each (test_batch cfg env (int k) (int k div ?i)) (enumerate_py (all_test_data st)) st = Inr b"
    using t by (simp add: test_all_def)
  have lenb: "length (acc_test_ref b) = length (acc_test_ref st)"
    using test_loop_ref[OF loop r0] by auto
  have "nat (int k div ?i) < length (acc_test_ref c)" using report_round_Inr(2)[OF r r0] .
  then have RT: "?R < T"
    using R lenb save_round_Inr(1)[OF s] inv by (simp add: run_inv_def rounds_recorded2_def)
  have "run_inv cfg env T N (Suc ?R) b" using test_all_inv[OF t _ i inv R RT] by simp
  moreover have "run_inv cfg env T N (Suc ?R) st' = run_inv cfg env T N (Suc ?R) b"
    using save_round_Inr(1)[OF s] report_round_Inr(1)[OF r] by (intro run_inv_cong) simp_all
  ultimately show "run_inv cfg env T N (Suc ?R) st'" by simp
  show "tested_steps (stdout (world st')) =
           tested_steps (stdout (world st)) @ [zfill 5 (str_int (int k))]"
    using test_loop_frame[OF loop r0] save_round_Inr(1)[OF s] report_round_Inr(1)[OF r] by simp
  show "training_view st' = training_view st"
    using test_loop_frame[OF loop r0] save_round_Inr(1)[OF s] report_round_Inr(1)[OF r] by simp
qed

lemma train_phase_inv:
  assumes "train_phase cfg env step st = Inr a"
  shows "run_inv cfg env T N R a = run_inv cfg env T N R st"
    and "tested_steps (stdout (world a)) = tested_steps (stdout (world st))"
    and "files (world a) = files (world st)"
proof -
  note F = train_phase_frame[OF assms]
  show "run_inv cfg env T N R a = run_inv cfg env T N R st"
    using F by (intro run_inv_cong) (simp_all add: evaluation_view_def)
  show "tested_steps (stdout (world a)) = tested_steps (stdout (world st))"
    using F by (simp add: evaluation_view_def)
  show "files (world a) = files (world st)"
    using F by (simp add: evaluation_view_def)
qed

lemma run_steps_inv:
  assumes "run_steps cfg env k st0 = Inr st" and "0 < n_test_interval cfg"
    and "run_inv cfg env T N 0 st0"
  shows "run_inv cfg env T N (rounds_run (n_test_interval cfg) k) st
         \<and> tested_steps (stdout (world st)) =
             tested_steps (stdout (world st0))
             @ map (\<lambda>s. zfill 5 (str_int (int s))) [s \<leftarrow> [0 ..< k]. int s mod n_test_interval cfg = 0]"
  using assms(1)
proof (induction k arbitrary: st)
  case 0
  then show ?case using assms(3) by simp
next
  case (Suc k)
  from Suc.prems obtain a b where
    a: "run_steps cfg env k st0 = Inr a" and
    b: "train_phase cfg env (int k) a = Inr b" and
    c: "if int k mod n_test_interval cfg = 0 then eval_round cfg env (int k) b = Inr st else st = b"
    unfolding run_steps_Suc_Inr train_step_Inr by blast
  note IH = Suc.IH[OF a] and P = train_phase_inv[OF b]
  show ?case
  proof (cases "int k mod n_test_interval cfg = 0")
    case True
    then have e: "eval_round cfg env (int k) b = Inr st" using c by simp
    have "run_inv cfg env T N (rounds_run (n_test_interval cfg) k) b" using IH P(1) by simp
    from eval_round_inv(1,2)[OF e assms(2) True this] show ?thesis
      using IH P(2) True by (simp add: rounds_run_Suc)
  next
    case False
    then show ?thesis using c IH P by (simp add: rounds_run_Suc)
  qed
qed




lemma interval_pos:
  assumes s: "start_up cfg env w = Inr st0" and r: "run_steps cfg env k st0 = Inr st"
    and k: "0 < k" "k \<le> nat (n_steps cfg)"
  shows "0 < n_test_interval cfg"
proof (rule ccontr)
  let ?i = "n_test_interval cfg"
  assume "\<not> 0 < ?i"
  then have neg: "?i < 0" using start_up_Inr(1)[OF s] by simp
  have "0 < n_steps cfg" using k by simp
  then have "real_of_int (n_steps cfg) / real_of_int ?i \<le> 0"
    using neg by (simp add: divide_le_0_iff)
  then have "n_tests_total cfg \<le> 0" by (simp add: n_tests_total_def)
  then have len0: "length (acc_test_ref st0) = 0"
    using start_up_Inr(2)[OF s] by (simp add: run_inv_def rounds_recorded2_def)
  from run_steps_prefix[OF r, of "Suc 0"] k obtain a where "run_steps cfg env (Suc 0) st0 = Inr a"
    by auto
  then have "train_step cfg env 0 st0 = Inr a" by simp
  then obtain b where
    b: "train_phase cfg env 0 st0 = Inr b" and e: "eval_round cfg env 0 b = Inr a"
    unfolding train_step_Inr by auto
  from e obtain c d where
    t: "test_all cfg env 0 b = Inr c" and
    sv: "save_round cfg env 0 c = Inr d" and
    rp: "report_round cfg 0 (0 div ?i) d = Inr a"
    unfolding eval_round_Inr by blast
  have loop: "for_each (test_batch cfg env 0 0) (enumerate_py (all_test_data b)) b = Inr c"
    using t by (simp add: test_all_def)
  have "length (acc_test_ref c) = length (acc_test_ref b)"
    using test_loop_ref[OF loop] by auto
  moreover have "acc_test_ref b = acc_test_ref st0"
    using train_phase_frame[OF b] by (simp add: evaluation_view_def)
  moreover have "acc_test_ref d = acc_test_ref c" using save_round_Inr(1)[OF sv] by simp
  moreover have "nat 0 < length (acc_test_ref d)" using report_round_Inr(2)[OF rp] by simp
  ultimately show False using len0 by simp
qed

subsection \<open>When evaluation rounds run\<close>





subsection \<open>Frames of a whole step\<close>

lemma eval_round_frame:
  assumes e: "eval_round cfg env step st = Inr st'" and i: "0 < n_test_interval cfg"
    and s: "0 \<le> step"
  shows "training_view st' = training_view st \<and> all_test_data st' = all_test_data st
         \<and> (snn st' = None \<longleftrightarrow> snn st = None)"
proof -
  let ?i = "n_test_interval cfg"
  from e obtain b c where
    t: "test_all cfg env step st = Inr b" and
    sv: "save_round cfg env step b = Inr c" and
    r: "report_round cfg step (step div ?i) c = Inr st'"
    unfolding eval_round_Inr by blast
  have r0: "0 \<le> step div ?i" using i s by (simp add: pos_imp_zdiv_nonneg_iff)
  have loop: "for_each (test_batch cfg env step (step div ?i)) (enumerate_py (all_test_data st)) st = Inr b"
    using t by (simp add: test_all_def)
  show ?thesis
    using test_loop_frame[OF loop r0] save_round_Inr(1)[OF sv] report_round_Inr(1)[OF r] by simp
qed

lemma train_step_rates:
  assumes t: "train_step cfg env (int k) st = Inr st'" and i: "0 < n_test_interval cfg"
    and j: "just_ref cfg \<longrightarrow> snn st = None"
  shows "learning_rates st' =
           (if (int k + 1) mod 1000 = 0 then map (\<lambda>lr. lr / 2) (learning_rates st)
            else learning_rates st)"
    and "just_ref cfg \<longrightarrow> snn st' = None"
proof -
  from t obtain a where
    a: "train_phase cfg env (int k) st = Inr a" and
    e: "if int k mod n_test_interval cfg = 0 then eval_round cfg env (int k) a = Inr st' else st' = a"
    unfolding train_step_Inr by blast
  note P = train_phase_rates[OF a j]
  have "training_view st' = training_view a \<and> (snn st' = None \<longleftrightarrow> snn a = None)"
  proof (cases "int k mod n_test_interval cfg = 0")
    case True
    then show ?thesis using e eval_round_frame[OF _ i, of env "int k" a st'] by simp
  next
    case False
    then show ?thesis using e by simp
  qed
  then show "learning_rates st' =
           (if (int k + 1) mod 1000 = 0 then map (\<lambda>lr. lr / 2) (learning_rates st)
            else learning_rates st)"
    and "just_ref cfg \<longrightarrow> snn st' = None"
    using P j by (simp_all add: training_view_def)
qed

lemma halvings_Suc:
  "Suc k div 1000 = (if (int k + 1) mod 1000 = 0 then Suc (k div 1000) else k div 1000)"
proof -
  have "(int k + 1) mod 1000 = 0 \<longleftrightarrow> Suc k mod 1000 = 0"
    by (metis of_nat_Suc of_nat_mod of_nat_eq_0_iff of_nat_numeral add.commute)
  then show ?thesis by (simp add: div_Suc)
qed

lemma run_steps_rates:
  assumes "run_steps cfg env k st0 = Inr st" and "0 < n_test_interval cfg"
    and "just_ref cfg \<longrightarrow> snn st0 = None"
  shows "learning_rates st = map (\<lambda>lr. lr / 2 ^ (k div 1000)) (learning_rates st0)
         \<and> (just_ref cfg \<longrightarrow> snn st = None)"
  using assms(1)
proof (induction k arbitrary: st)
  case 0
  then show ?case using assms(3) by simp
next
  case (Suc k)
  from Suc.prems obtain a where
    a: "run_steps cfg env k st0 = Inr a" and t: "train_step cfg env (int k) a = Inr st"
    unfolding run_steps_Suc_Inr by blast
  note IH = Suc.IH[OF a]
  from IH have j: "just_ref cfg \<longrightarrow> snn a = None" by simp
  note R = train_step_rates[OF t assms(2) j]
  show ?case
  proof (cases "(int k + 1) mod 1000 = 0")
    case True
    then show ?thesis using R IH by (simp add: halvings_Suc)
  next
    case False
    then show ?thesis using R IH by (simp add: halvings_Suc)
  qed
qed

subsection \<open>Learning-rate decay\<close>

text \<open>
  Claim C2.  The tracked learning rates are those of the reference network's optimizer and,
  unless \<open>just_ref\<close>, of the last slice's second optimizer and of every slice's optimizer.
  After \<open>k\<close> completed steps each of them is its value at step 0 divided by \<open>2 ^ (k div 1000)\<close>;
  so after \<open>1000 * m\<close> steps it is the initial value divided by \<open>2 ^ m\<close>.  A single step \<open>j\<close>
  halves all of them when \<open>(j + 1) % 1000 == 0\<close> and leaves all of them alone otherwise.
\<close>

theorem learning_rate_halving:
  assumes "start_up cfg env w = Inr st0" and "run_steps cfg env k st0 = Inr st"
    and "k \<le> nat (n_steps cfg)"
  shows "learning_rates st0 =
           new_ref_lr env # (if just_ref cfg then [] else new_lr2 env # new_slice_lrs env)
         \<and> learning_rates st = map (\<lambda>lr. lr / 2 ^ (k div 1000)) (learning_rates st0)
         \<and> (\<forall>j a b. j < k \<longrightarrow> run_steps cfg env j st0 = Inr a
                \<longrightarrow> run_steps cfg env (Suc j) st0 = Inr b
                \<longrightarrow> learning_rates b =
                      (if (int j + 1) mod 1000 = 0 then map (\<lambda>lr. lr / 2) (learning_rates a)
                       else learning_rates a))"
proof -
  note S = start_up_Inr[OF assms(1)]
  have j0: "just_ref cfg \<longrightarrow> snn st0 = None"
    using S(2) by (auto simp: run_inv_def split: option.splits)
  show ?thesis
  proof (cases "k = 0")
    case True
    then show ?thesis using assms(2) S(5) by simp
  next
    case False
    then have i: "0 < n_test_interval cfg" using interval_pos[OF assms(1,2) _ assms(3)] by simp
    have step: "learning_rates b =
                  (if (int j + 1) mod 1000 = 0 then map (\<lambda>lr. lr / 2) (learning_rates a)
                   else learning_rates a)"
      if "run_steps cfg env j st0 = Inr a" and "run_steps cfg env (Suc j) st0 = Inr b" for j a b
    proof -
      have "train_step cfg env (int j) a = Inr b" using that by simp
      moreover have "just_ref cfg \<longrightarrow> snn a = None"
        using run_steps_rates[OF that(1) i j0] by simp
      ultimately show ?thesis using train_step_rates(1)[OF _ i] by blast
    qed
    show ?thesis using S(5) run_steps_rates[OF assms(2) i j0] step by blast
  qed
qed

lemma long_start: "start_up cfg_long env0 w0 = Inr st_long" "long_ok st_long"
proof -
  have "\<not> isl (start_up cfg_long env0 w0)" by code_simp
  then show "start_up cfg_long env0 w0 = Inr st_long" by (simp add: st_long_def)
  show "long_ok st_long" unfolding st_long_def long_ok_def
    by (simp add: start_up_def cfg_long_def cfg0_def env0_def w0_def ceil_div_def setup_net_def
          restore_def np_empty3_def np_empty2_def take_tests_def save_metadata_def Let_def
          iter_train_def target_size_def)
qed

text \<open>A run of 2000 steps on the small environment completes.\<close>

lemma learn_loop_env0:
  assumes "\<forall>t \<in> set ts. t < d"
  shows "\<exists>n'. learn_loop env0 lrs lr2 (replicate d x) (replicate d y) ts n = Inr n'"
  using assms by (induction ts arbitrary: n) (simp_all add: tensor_at_def)

lemma env0_encoder:
  "to_spike_train env0 x y d = (replicate (nat d) x, replicate (nat d) y)"
  "to_tensor env0 step = Inr"
  by (simp_all add: env0_def)

lemma long_phase:
  assumes "long_ok st"
  shows "\<exists>st'. train_phase cfg_long env0 step st = Inr st' \<and> long_ok st'"
proof -
  from assms obtain s where s: "snn st = Some s" "length (slice_lr s) = 2"
    by (auto simp: long_ok_def split: option.splits)
  then have ne: "slice_lr s \<noteq> []" by auto
  have "\<exists>st1. adjust_lr cfg_long step st = Inr st1 \<and> long_ok st1"
    using assms s ne
    by (simp add: adjust_lr_def long_ok_def cfg_long_def cfg0_def say_def py_print_def)
  then obtain st1 where a: "adjust_lr cfg_long step st = Inr st1" and ok1: "long_ok st1"
    by blast
  have "\<exists>b st2. next_batch env0 st1 = Inr (b, st2) \<and> b \<in> set (train_data env0) \<and> long_ok st2"
  proof (cases "gen_train st1")
    case Nil
    then show ?thesis using ok1 by (simp add: next_batch_def long_ok_def iter_train_def env0_def)
  next
    case (Cons b bs)
    then show ?thesis using ok1 by (auto simp: next_batch_def long_ok_def)
  qed
  then obtain b st2 where n: "next_batch env0 st1 = Inr (b, st2)" and b: "b \<in> set (train_data env0)"
    and ok2: "long_ok st2"
    by blast
  from b have bb: "b = (1, [0, 1]) \<or> b = (2, [2, 0])" by (simp add: env0_def)
  have "\<exists>counts. count_labels (snd b) (label_train_counts st2) = Inr counts \<and> length counts = 10"
    using ok2 bb by (auto simp: long_ok_def count_label_def np_index_def)
  then obtain counts where c: "count_labels (snd b) (label_train_counts st2) = Inr counts"
    and lc: "length counts = 10"
    by blast
  let ?st3 = "st2\<lparr>label_train_counts := counts\<rparr>"
  let ?h = "to_one_hot env0 (snd b) (target_size (data cfg_long))"
  have ok3: "long_ok ?st3" using ok2 lc by (simp add: long_ok_def)
  obtain s3 where s3: "snn ?st3 = Some s3" using ok3 by (auto simp: long_ok_def split: option.splits)
  have "\<exists>n'. learn_loop env0 (slice_lr s3) (slice_lr2 s3) (replicate (nat 2) (fst b))
               (replicate (nat 2) ?h) [0 ..< nat 2]
               (net_train env0 (net_reset env0 False (net s3))) = Inr n'"
    by (rule learn_loop_env0) simp
  then obtain n' where
    "learn_loop env0 (slice_lr s3) (slice_lr2 s3) (replicate (nat 2) (fst b)) (replicate (nat 2) ?h)
       [0 ..< nat 2] (net_train env0 (net_reset env0 False (net s3))) = Inr n'"
    by blast
  then have "\<exists>st4. train_snn cfg_long env0 step (fst b) ?h ?st3 = Inr st4 \<and> long_ok st4"
    using ok3 s3
    by (simp add: train_snn_def long_ok_def cfg_long_def cfg0_def env0_encoder say_def py_print_def)
  then obtain st4 where t: "train_snn cfg_long env0 step (fst b) ?h ?st3 = Inr st4"
    and ok4: "long_ok st4"
    by blast
  have "long_ok (train_ref env0 (fst b) ?h st4)"
    using ok4 by (simp add: long_ok_def train_ref_def)
  then show ?thesis
    unfolding train_phase_Inr using a n c t by (cases b) auto
qed

lemma long_step:
  assumes "long_ok st" and "k < 2000"
  shows "\<exists>st'. train_step cfg_long env0 (int k) st = Inr st' \<and> long_ok st'"
proof -
  from long_phase[OF assms(1)] obtain a where
    a: "train_phase cfg_long env0 (int k) st = Inr a" and ok: "long_ok a"
    by blast
  have i: "n_test_interval cfg_long = 2000" by (simp add: cfg_long_def cfg0_def)
  show ?thesis
  proof (cases "int k mod 2000 = 0")
    case False
    then show ?thesis using a ok i by (auto simp: train_step_Inr)
  next
    case True
    then have k0: "int k div 2000 = 0" using assms(2) by simp
    have "\<exists>st'. eval_round cfg_long env0 (int k) a = Inr st' \<and> long_ok st'"
      using ok k0
      by (auto simp: eval_round_def test_all_def save_round_def report_round_def i long_ok_def
            cfg_long_def cfg0_def np_index_def write_file_def py_print_def say_def Let_def
            split: option.splits)
    then show ?thesis using a True i by (auto simp: train_step_Inr)
  qed
qed

lemma long_run:
  assumes "k \<le> 2000"
  shows "\<exists>st. run_steps cfg_long env0 k st_long = Inr st \<and> long_ok st"
  using assms
proof (induction k)
  case 0
  then show ?case using long_start(2) by simp
next
  case (Suc k)
  then obtain a where a: "run_steps cfg_long env0 k st_long = Inr a" "long_ok a" by auto
  from long_step[OF a(2), of k] Suc.prems show ?case using a(1) by simp
qed

lemma long_end: "run_steps cfg_long env0 2000 st_long = Inr st_long_end"
  using long_run[of 2000] by (auto simp: st_long_end_def)

theorem learning_rate_halving_witness:
  "start_up cfg_long env0 w0 = Inr st_long \<and> run_steps cfg_long env0 2000 st_long = Inr st_long_end
   \<and> 2000 \<le> nat (n_steps cfg_long)
   \<and> learning_rates st_long = [1, 1 / 2, 1 / 4, 1 / 8]
   \<and> learning_rates st_long_end = [1 / 4, 1 / 8, 1 / 16, 1 / 32]"
proof -
  have n: "2000 \<le> nat (n_steps cfg_long)" by (simp add: cfg_long_def)
  note T = learning_rate_halving[OF long_start(1) long_end n]
  have "learning_rates st_long = [1, 1 / 2, 1 / 4, 1 / 8]"
    using T by (simp add: env0_def cfg_long_def cfg0_def)
  moreover from this have "learning_rates st_long_end = [1 / 4, 1 / 8, 1 / 16, 1 / 32]"
    using T by simp
  ultimately show ?thesis using long_start(1) long_end n by simp
qed

subsection \<open>The label counter\<close>






subsection \<open>The training batches\<close>

lemma next_batch_at:
  assumes "at_batch (train_data env) k (gen_train st)" and "train_data env \<noteq> []"
  shows "next_batch env st =
           Inr (train_data env ! (k mod length (train_data env)),
                st\<lparr>gen_train := drop (Suc (k mod length (train_data env))) (train_data env)\<rparr>)"
proof -
  let ?td = "train_data env" and ?m = "k mod length (train_data env)"
  have m: "?m < length ?td" using assms(2) by simp
  from assms(1) consider "gen_train st = drop ?m ?td" | "?m = 0" "gen_train st = []"
    by (auto simp: at_batch_def)
  then show ?thesis
  proof cases
    case 1
    then have "gen_train st = ?td ! ?m # drop (Suc ?m) ?td" using m by (simp add: Cons_nth_drop_Suc)
    then show ?thesis by (simp add: next_batch_def)
  next
    case 2
    obtain b bs where td: "?td = b # bs" using assms(2) by (cases ?td) auto
    then show ?thesis using 2 by (simp add: next_batch_def iter_train_def)
  qed
qed

lemma at_batch_Suc:
  assumes "td \<noteq> []"
  shows "at_batch td (Suc k) (drop (Suc (k mod length td)) td)"
proof (cases "Suc (k mod length td) < length td")
  case True
  then have "Suc k mod length td = Suc (k mod length td)" by (simp add: mod_Suc)
  then show ?thesis by (simp add: at_batch_def)
next
  case False
  have "k mod length td < length td" using assms by simp
  then have eq: "Suc (k mod length td) = length td" using False by simp
  then have "Suc k mod length td = 0" by (simp add: mod_Suc)
  then show ?thesis using eq by (simp add: at_batch_def)
qed

lemma train_phase_training:
  assumes "train_phase cfg env step st = Inr st'"
  shows "\<exists>b st1 st2. gen_train st1 = gen_train st \<and> next_batch env st1 = Inr (b, st2)
           \<and> gen_train st' = gen_train st2
           \<and> count_labels (snd b) (label_train_counts st) = Inr (label_train_counts st')"
proof -
  from assms obtain st1 x labels st2 counts st4 where
    a: "adjust_lr cfg step st = Inr st1" and
    n: "next_batch env st1 = Inr ((x, labels), st2)" and
    c: "count_labels labels (label_train_counts st2) = Inr counts" and
    t: "train_snn cfg env step x (to_one_hot env labels (target_size (data cfg)))
          (st2\<lparr>label_train_counts := counts\<rparr>) = Inr st4" and
    r: "st' = train_ref env x (to_one_hot env labels (target_size (data cfg))) st4"
    unfolding train_phase_Inr by blast
  have "training_view st' = training_view (st2\<lparr>label_train_counts := counts\<rparr>)"
    using train_snn_frame[OF t] by (simp add: r train_ref_frame)
  then have "gen_train st' = gen_train st2" "label_train_counts st' = counts"
    by (simp_all add: training_view_def)
  moreover have "label_train_counts st2 = label_train_counts st" "gen_train st1 = gen_train st"
    using adjust_lr_frame[OF a] next_batch_frame[OF n] by simp_all
  ultimately show ?thesis using n c by fastforce
qed

lemma train_step_training:
  assumes t: "train_step cfg env (int k) st = Inr st'" and i: "0 < n_test_interval cfg"
    and g: "at_batch (train_data env) k (gen_train st)" and ne: "train_data env \<noteq> []"
  shows "at_batch (train_data env) (Suc k) (gen_train st')"
    and "count_labels (snd (train_data env ! (k mod length (train_data env))))
           (label_train_counts st) = Inr (label_train_counts st')"
proof -
  from t obtain a where
    a: "train_phase cfg env (int k) st = Inr a" and
    e: "if int k mod n_test_interval cfg = 0 then eval_round cfg env (int k) a = Inr st' else st' = a"
    unfolding train_step_Inr by blast
  have v: "training_view st' = training_view a"
  proof (cases "int k mod n_test_interval cfg = 0")
    case True
    then show ?thesis using e eval_round_frame[OF _ i, of env "int k" a st'] by simp
  next
    case False
    then show ?thesis using e by simp
  qed
  from train_phase_training[OF a] obtain b st1 st2 where
    g1: "gen_train st1 = gen_train st" and n: "next_batch env st1 = Inr (b, st2)" and
    g2: "gen_train a = gen_train st2" and
    c: "count_labels (snd b) (label_train_counts st) = Inr (label_train_counts a)"
    by blast
  from next_batch_at[of env k st1] g g1 ne n
  have b: "b = train_data env ! (k mod length (train_data env))"
    and st2: "gen_train st2 = drop (Suc (k mod length (train_data env))) (train_data env)"
    by auto
  show "at_batch (train_data env) (Suc k) (gen_train st')"
    using v g2 st2 at_batch_Suc[OF ne] by (simp add: training_view_def)
  show "count_labels (snd (train_data env ! (k mod length (train_data env))))
           (label_train_counts st) = Inr (label_train_counts st')"
    using v c b by (simp add: training_view_def)
qed

lemma run_steps_at_batch:
  assumes "run_steps cfg env k st0 = Inr st" and "0 < n_test_interval cfg"
    and "gen_train st0 = train_data env" and "train_data env \<noteq> []"
  shows "at_batch (train_data env) k (gen_train st)"
  using assms(1)
proof (induction k arbitrary: st)
  case 0
  then show ?case using assms(3) by (simp add: at_batch_def)
next
  case (Suc k)
  from Suc.prems obtain a where
    a: "run_steps cfg env k st0 = Inr a" and t: "train_step cfg env (int k) a = Inr st"
    unfolding run_steps_Suc_Inr by blast
  from train_step_training(1)[OF t assms(2) Suc.IH[OF a] assms(4)] show ?case .
qed










subsection \<open>Restarting the training iterator\<close>

text \<open>
  Claim C4 (amended).  Let the training loader yield at least one batch per pass.  Then
  fetching the next batch never raises, in any state.  When the iterator is exhausted, the
  fetch restarts the iteration and returns the first batch of the loader, and the batches
  after it follow.  In a run, the batch fetched by step \<open>k\<close> is batch number
  \<open>k mod n\<close> of the \<open>n\<close> batches of the loader: the run loops over the data for ever.
\<close>

theorem training_data_restart:
  assumes "train_data env \<noteq> []"
  shows "(\<exists>b st'. next_batch env st = Inr (b, st'))
         \<and> (gen_train st = [] \<longrightarrow>
              next_batch env st = Inr (hd (train_data env), st\<lparr>gen_train := tl (train_data env)\<rparr>))
         \<and> (\<forall>cfg w st0 k a. start_up cfg env w = Inr st0 \<longrightarrow> run_steps cfg env k st0 = Inr a
                \<longrightarrow> k \<le> nat (n_steps cfg)
                \<longrightarrow> (\<exists>a'. next_batch env a
                            = Inr (train_data env ! (k mod length (train_data env)), a')))"
proof -
  obtain b bs where td: "train_data env = b # bs" using assms by (cases "train_data env") auto
  have 1: "\<exists>b st'. next_batch env st = Inr (b, st')"
    using td by (cases "gen_train st") (simp_all add: next_batch_def iter_train_def)
  have 2: "gen_train st = [] \<longrightarrow>
              next_batch env st = Inr (hd (train_data env), st\<lparr>gen_train := tl (train_data env)\<rparr>)"
    using td by (simp add: next_batch_def iter_train_def)
  have 3: "\<exists>a'. next_batch env a = Inr (train_data env ! (k mod length (train_data env)), a')"
    if s: "start_up cfg env w = Inr st0" and r: "run_steps cfg env k st0 = Inr a"
      and k: "k \<le> nat (n_steps cfg)" for cfg w st0 k a
  proof -
    have "at_batch (train_data env) k (gen_train a)"
    proof (cases "k = 0")
      case True
      then show ?thesis using r start_up_Inr(3)[OF s] by (simp add: at_batch_def)
    next
      case False
      then have "0 < n_test_interval cfg" using interval_pos[OF s r _ k] by simp
      from run_steps_at_batch[OF r this start_up_Inr(3)[OF s] assms] show ?thesis .
    qed
    from next_batch_at[OF this assms] show ?thesis by simp
  qed
  show ?thesis using 1 2 3 by blast
qed

theorem training_data_restart_witness:
  "train_data env0 \<noteq> []
   \<and> next_batch env0 st_end = Inr ((1, [0, 1]), st_end\<lparr>gen_train := [(2, [2, 0])]\<rparr>)
   \<and> gen_train st_end = []"
proof -
  have ne: "train_data env0 \<noteq> []" by (simp add: env0_def)
  have e: "gen_train st_end = []" unfolding st_end_def st_start_def by code_simp
  from training_data_restart[OF ne, of st_end] e
  have "next_batch env0 st_end = Inr (hd (train_data env0), st_end\<lparr>gen_train := tl (train_data env0)\<rparr>)"
    by blast
  then show ?thesis using ne e by (simp add: env0_def)
qed

theorem training_data_restart_counterexample:
  "isl (main cfg0 env_empty w0) \<and> fst (projl (main cfg0 env_empty w0)) = StopIteration"
  by code_simp

subsection \<open>File names\<close>

lemma digit_char_inj:
  assumes "digit_char a = digit_char b" and "a < 10" and "b < 10"
  shows "a = b"
proof -
  have "of_char (digit_char a) = (of_char (digit_char b) :: nat)" using assms(1) by simp
  then show ?thesis using assms(2,3) by (simp add: digit_char_def)
qed

lemma str_nat_not_Nil: "str_nat n \<noteq> []"
  by (subst str_nat.simps) simp

lemma str_nat_inj:
  assumes "str_nat n = str_nat m"
  shows "n = m"
  using assms
proof (induction n arbitrary: m rule: str_nat.induct)
  case (1 n)
  show ?case
  proof (cases "n < 10")
    case True
    then have n: "str_nat n = [digit_char n]" by (subst str_nat.simps) simp
    show ?thesis
    proof (cases "m < 10")
      case True
      then have "str_nat m = [digit_char m]" by (subst str_nat.simps) simp
      then show ?thesis using n "1.prems" \<open>n < 10\<close> True digit_char_inj by auto
    next
      case False
      then have "str_nat m = str_nat (m div 10) @ [digit_char (m mod 10)]"
        by (subst str_nat.simps) simp
      then show ?thesis using n "1.prems" str_nat_not_Nil[of "m div 10"] by simp
    qed
  next
    case False
    then have n: "str_nat n = str_nat (n div 10) @ [digit_char (n mod 10)]"
      by (subst str_nat.simps) simp
    show ?thesis
    proof (cases "m < 10")
      case True
      then have "str_nat m = [digit_char m]" by (subst str_nat.simps) simp
      then show ?thesis using n "1.prems" str_nat_not_Nil[of "n div 10"] by simp
    next
      case m: False
      then have "str_nat m = str_nat (m div 10) @ [digit_char (m mod 10)]"
        by (subst str_nat.simps) simp
      then have "str_nat (n div 10) = str_nat (m div 10)"
        and d: "digit_char (n mod 10) = digit_char (m mod 10)"
        using n "1.prems" by simp_all
      then have "n div 10 = m div 10" using "1.IH"[OF False] by simp
      moreover have "n mod 10 = m mod 10" using digit_char_inj[OF d] by simp
      ultimately show ?thesis by (metis div_mult_mod_eq)
    qed
  qed
qed

lemma save_path_inj:
  "save_path d (int s) = save_path d (int s') \<longleftrightarrow> s = s'"
  by (auto simp: save_path_def path_join_def str_int_def dest: str_nat_inj)

lemma paths_distinct:
  "acc_test_path d \<noteq> acc_test_ref_path d"
  "save_path d step \<noteq> acc_test_path d"
  "save_path d step \<noteq> acc_test_ref_path d"
  "acc_test_ref_path d \<noteq> acc_test_path d"
  "acc_test_path d \<noteq> save_path d step"
  "acc_test_ref_path d \<noteq> save_path d step"
  by (simp_all add: acc_test_path_def acc_test_ref_path_def save_path_def path_join_def)

subsection \<open>What a step writes to disk\<close>

lemma train_step_saved:
  assumes t: "train_step cfg env (int k) st = Inr st'" and i: "0 < n_test_interval cfg"
    and m: "int k mod n_test_interval cfg = 0" and j: "\<not> just_ref cfg" and n: "\<not> no_save cfg"
  shows "\<exists>a b sn. train_phase cfg env (int k) st = Inr a \<and> test_all cfg env (int k) a = Inr b
           \<and> snn b = Some sn
           \<and> files (world st') =
               (files (world st))
                 (acc_test_path (out_dir env) \<mapsto> Npy3 (acc_test sn),
                  acc_test_ref_path (out_dir env) \<mapsto> Npy2 (acc_test_ref b),
                  save_path (out_dir env) (int k) \<mapsto> Pth (state_dict env (net_cpu env (net sn))))
           \<and> map_option acc_test (snn st') = Some (acc_test sn)
           \<and> acc_test_ref st' = acc_test_ref b"
proof -
  let ?i = "n_test_interval cfg"
  from t m obtain a where
    a: "train_phase cfg env (int k) st = Inr a" and e: "eval_round cfg env (int k) a = Inr st'"
    unfolding train_step_Inr by auto
  from e obtain b c where
    tb: "test_all cfg env (int k) a = Inr b" and
    sv: "save_round cfg env (int k) b = Inr c" and
    rp: "report_round cfg (int k) (int k div ?i) c = Inr st'"
    unfolding eval_round_Inr by blast
  have r0: "0 \<le> int k div ?i" using i by (simp add: pos_imp_zdiv_nonneg_iff)
  have loop: "for_each (test_batch cfg env (int k) (int k div ?i)) (enumerate_py (all_test_data a)) a = Inr b"
    using tb by (simp add: test_all_def)
  have fb: "files (world b) = files (world st)"
    using test_loop_frame[OF loop r0] train_phase_inv(3)[OF a] by simp
  from save_round_Inr(3)[OF sv j n] obtain sn where
    sn: "snn b = Some sn" and
    fc: "files (world c) =
           (files (world b))
             (acc_test_path (out_dir env) \<mapsto> Npy3 (acc_test sn),
              acc_test_ref_path (out_dir env) \<mapsto> Npy2 (acc_test_ref b),
              save_path (out_dir env) (int k) \<mapsto> Pth (state_dict env (net_cpu env (net sn))))"
    by blast
  have "map_option acc_test (snn st') = Some (acc_test sn)" "acc_test_ref st' = acc_test_ref b"
    "files (world st') = files (world c)"
    using save_round_Inr(1)[OF sv] report_round_Inr(1)[OF rp] sn by simp_all
  then show ?thesis using a tb sn fc fb by auto
qed

lemma train_step_unsaved:
  assumes t: "train_step cfg env (int k) st = Inr st'" and i: "0 < n_test_interval cfg"
    and u: "int k mod n_test_interval cfg \<noteq> 0 \<or> just_ref cfg \<or> no_save cfg"
  shows "files (world st') = files (world st)"
    and "int k mod n_test_interval cfg \<noteq> 0 \<Longrightarrow> evaluation_view st' = evaluation_view st"
proof -
  let ?i = "n_test_interval cfg"
  from t obtain a where
    a: "train_phase cfg env (int k) st = Inr a" and
    e: "if int k mod ?i = 0 then eval_round cfg env (int k) a = Inr st' else st' = a"
    unfolding train_step_Inr by blast
  show "evaluation_view st' = evaluation_view st" if "int k mod ?i \<noteq> 0"
    using that e train_phase_frame[OF a] by simp
  show "files (world st') = files (world st)"
  proof (cases "int k mod ?i = 0")
    case False
    then show ?thesis using e train_phase_inv(3)[OF a] by simp
  next
    case True
    then have e': "eval_round cfg env (int k) a = Inr st'" and ns: "just_ref cfg \<or> no_save cfg"
      using e u by simp_all
    from e' obtain b c where
      tb: "test_all cfg env (int k) a = Inr b" and
      sv: "save_round cfg env (int k) b = Inr c" and
      rp: "report_round cfg (int k) (int k div ?i) c = Inr st'"
      unfolding eval_round_Inr by blast
    have r0: "0 \<le> int k div ?i" using i by (simp add: pos_imp_zdiv_nonneg_iff)
    have loop: "for_each (test_batch cfg env (int k) (int k div ?i)) (enumerate_py (all_test_data a)) a = Inr b"
      using tb by (simp add: test_all_def)
    show ?thesis
      using test_loop_frame[OF loop r0] train_phase_inv(3)[OF a] save_round_Inr(2)[OF sv ns]
        report_round_Inr(1)[OF rp] by simp
  qed
qed

lemma run_steps_unsaved:
  assumes "run_steps cfg env k st0 = Inr st" and "0 < n_test_interval cfg"
    and "just_ref cfg \<or> no_save cfg"
  shows "files (world st) = files (world st0)"
  using assms(1)
proof (induction k arbitrary: st)
  case 0
  then show ?case by simp
next
  case (Suc k)
  from Suc.prems obtain a where
    a: "run_steps cfg env k st0 = Inr a" and t: "train_step cfg env (int k) a = Inr st"
    unfolding run_steps_Suc_Inr by blast
  show ?case using Suc.IH[OF a] train_step_unsaved(1)[OF t assms(2)] assms(3) by simp
qed

lemma run_steps_saved:
  assumes "run_steps cfg env k st0 = Inr st" and "0 < n_test_interval cfg"
    and "\<not> just_ref cfg" and "\<not> no_save cfg" and "0 < k"
  shows "\<exists>s. snn st = Some s
           \<and> files (world st) (acc_test_path (out_dir env)) = Some (Npy3 (acc_test s))
           \<and> files (world st) (acc_test_ref_path (out_dir env)) = Some (Npy2 (acc_test_ref st))"
  using assms(1,5)
proof (induction k arbitrary: st)
  case 0
  then show ?case by simp
next
  case (Suc k)
  from Suc.prems obtain a where
    a: "run_steps cfg env k st0 = Inr a" and t: "train_step cfg env (int k) a = Inr st"
    unfolding run_steps_Suc_Inr by blast
  show ?case
  proof (cases "int k mod n_test_interval cfg = 0")
    case True
    from train_step_saved[OF t assms(2) True assms(3,4)] show ?thesis
      by (auto simp: paths_distinct)
  next
    case False
    then have "k \<noteq> 0" by (cases k) auto
    with Suc.IH[OF a] obtain s where
      s: "snn a = Some s" and
      f: "files (world a) (acc_test_path (out_dir env)) = Some (Npy3 (acc_test s))"
         "files (world a) (acc_test_ref_path (out_dir env)) = Some (Npy2 (acc_test_ref a))"
      by auto
    from train_step_unsaved(2)[OF t assms(2) _ False] False s f show ?thesis
      by (auto simp: evaluation_view_def)
  qed
qed

subsection \<open>The accuracy arrays and their files\<close>

lemma run_arrays:
  assumes "start_up cfg env w = Inr st0" and "run_steps cfg env k st0 = Inr st"
    and "k \<le> nat (n_steps cfg)"
  shows "run_inv cfg env (nat (n_tests_total cfg)) (nat (n_test cfg))
           (rounds_run (n_test_interval cfg) k) st"
proof (cases "k = 0")
  case True
  then show ?thesis using assms(2) start_up_Inr(2)[OF assms(1)] by simp
next
  case False
  then have "0 < n_test_interval cfg" using interval_pos[OF assms(1,2) _ assms(3)] by simp
  from run_steps_inv[OF assms(2) this start_up_Inr(2)[OF assms(1)]] show ?thesis by simp
qed

lemma run_files:
  assumes "start_up cfg env w = Inr st0" and "run_steps cfg env k st0 = Inr st"
    and "k \<le> nat (n_steps cfg)"
  shows "\<not> just_ref cfg \<Longrightarrow> \<not> no_save cfg \<Longrightarrow> 0 < k \<Longrightarrow>
           \<exists>s. snn st = Some s
             \<and> files (world st) (acc_test_path (out_dir env)) = Some (Npy3 (acc_test s))
             \<and> files (world st) (acc_test_ref_path (out_dir env)) = Some (Npy2 (acc_test_ref st))"
    and "just_ref cfg \<or> no_save cfg \<or> k = 0 \<Longrightarrow>
           files (world st) (acc_test_path (out_dir env)) = files w (acc_test_path (out_dir env))
           \<and> files (world st) (acc_test_ref_path (out_dir env))
               = files w (acc_test_ref_path (out_dir env))"
    and "just_ref cfg \<or> no_save cfg \<or> k = 0 \<Longrightarrow> files (world st) = files (world st0)"
proof -
  show "\<exists>s. snn st = Some s
             \<and> files (world st) (acc_test_path (out_dir env)) = Some (Npy3 (acc_test s))
             \<and> files (world st) (acc_test_ref_path (out_dir env)) = Some (Npy2 (acc_test_ref st))"
    if "\<not> just_ref cfg" "\<not> no_save cfg" "0 < k"
    using run_steps_saved[OF assms(2) interval_pos[OF assms(1,2) that(3) assms(3)] that] .
  have same: "files (world st) = files (world st0)" if u: "just_ref cfg \<or> no_save cfg \<or> k = 0"
  proof (cases "k = 0")
    case True
    then show ?thesis using assms(2) by simp
  next
    case False
    then have i: "0 < n_test_interval cfg" using interval_pos[OF assms(1,2) _ assms(3)] by simp
    have "just_ref cfg \<or> no_save cfg" using u False by simp
    from run_steps_unsaved[OF assms(2) i this] show ?thesis .
  qed
  then show "files (world st) = files (world st0)" if "just_ref cfg \<or> no_save cfg \<or> k = 0"
    using that by simp
  show "files (world st) (acc_test_path (out_dir env)) = files w (acc_test_path (out_dir env))
           \<and> files (world st) (acc_test_ref_path (out_dir env))
               = files w (acc_test_ref_path (out_dir env))"
    if "just_ref cfg \<or> no_save cfg \<or> k = 0"
    using same[OF that] start_up_Inr(7,8)[OF assms(1)] by simp
qed


lemma started_ok:
  assumes "\<not> isl (start_up cfg env0 w0)"
  shows "start_up cfg env0 w0 = Inr (started cfg)"
  using assms by (simp add: started_def)

lemma stepped_ok:
  assumes "\<not> isl (run_steps cfg env0 k (started cfg))"
  shows "run_steps cfg env0 k (started cfg) = Inr (stepped cfg k)"
  using assms by (simp add: stepped_def)






text \<open>
  Claim C9 (amended).  In reference-only mode no trainable network and no accuracy array of
  its own exist.  Every evaluation round still records the reference network's accuracy for
  each held-out batch, in the round's row of the in-memory array.  Nothing is saved: the
  main loop leaves the file system as set-up left it, and neither accuracy file is written.
\<close>

theorem reference_only_rounds:
  assumes "start_up cfg env w = Inr st0" and "run_steps cfg env k st0 = Inr st"
    and "k \<le> nat (n_steps cfg)" and "just_ref cfg"
  shows "snn st = None
         \<and> rounds_recorded2 (nat (n_tests_total cfg)) (nat (n_test cfg))
             (rounds_run (n_test_interval cfg) k) (acc_test_ref st)
         \<and> files (world st) = files (world st0)
         \<and> files (world st) (acc_test_ref_path (out_dir env)) = files w (acc_test_ref_path (out_dir env))
         \<and> files (world st) (acc_test_path (out_dir env)) = files w (acc_test_path (out_dir env))"
proof -
  have "snn st = None"
    and "rounds_recorded2 (nat (n_tests_total cfg)) (nat (n_test cfg))
           (rounds_run (n_test_interval cfg) k) (acc_test_ref st)"
    using run_arrays[OF assms(1-3)] assms(4) by (auto simp: run_inv_def split: option.splits)
  then show ?thesis
    using run_files(2)[OF assms(1-3)] run_files(3)[OF assms(1-3)] assms(4) by blast
qed

theorem reference_only_rounds_witness:
  "start_up cfg_ref env0 w0 = Inr (started cfg_ref)
   \<and> run_steps cfg_ref env0 4 (started cfg_ref) = Inr (stepped cfg_ref 4)
   \<and> just_ref cfg_ref
   \<and> rounds_run (n_test_interval cfg_ref) 4 = 2
   \<and> acc_test_ref (stepped cfg_ref 4) = [[Some (1 / 4), Some (1 / 4)], [Some (1 / 4), Some (1 / 4)]]
   \<and> files (world (stepped cfg_ref 4)) (acc_test_ref_path (out_dir env0)) = None"
proof -
  have s: "start_up cfg_ref env0 w0 = Inr (started cfg_ref)" by (rule started_ok) code_simp
  have r: "run_steps cfg_ref env0 4 (started cfg_ref) = Inr (stepped cfg_ref 4)"
    by (rule stepped_ok) code_simp
  have n: "4 \<le> nat (n_steps cfg_ref)" by (simp add: cfg_ref_def cfg0_def)
  have j: "just_ref cfg_ref" by (simp add: cfg_ref_def)
  note T = reference_only_rounds[OF s r n j]
  from T have "files (world (stepped cfg_ref 4)) (acc_test_ref_path (out_dir env0))
                 = files w0 (acc_test_ref_path (out_dir env0))"
    by blast
  then have "files (world (stepped cfg_ref 4)) (acc_test_ref_path (out_dir env0)) = None"
    by (simp add: w0_def)
  moreover have "rounds_run (n_test_interval cfg_ref) 4 = 2"
    "acc_test_ref (stepped cfg_ref 4) = [[Some (1 / 4), Some (1 / 4)], [Some (1 / 4), Some (1 / 4)]]"
    by code_simp+
  ultimately show ?thesis using s r j by simp
qed

theorem reference_only_rounds_counterexample:
  "\<not> isl (main cfg_ref env0 w0)
   \<and> just_ref cfg_ref \<and> \<not> no_save cfg_ref
   \<and> tested_steps (stdout (world (projr (main cfg_ref env0 w0)))) = [''00000'', ''00002'']
   \<and> files (world (projr (main cfg_ref env0 w0))) (acc_test_ref_path (out_dir env0)) = None
   \<and> files (world (projr (main cfg_ref env0 w0))) (acc_test_path (out_dir env0)) = None"
  by code_simp

subsection \<open>Checkpoints\<close>

lemma run_steps_checkpoint:
  assumes "run_steps cfg env k st0 = Inr st" and "0 < n_test_interval cfg"
    and "\<not> just_ref cfg" and "\<not> no_save cfg"
    and "s < k" and "int s mod n_test_interval cfg = 0"
  shows "\<exists>a a' b sn. run_steps cfg env s st0 = Inr a \<and> train_phase cfg env (int s) a = Inr a'
           \<and> test_all cfg env (int s) a' = Inr b \<and> snn b = Some sn
           \<and> files (world st) (save_path (out_dir env) (int s))
               = Some (Pth (state_dict env (net_cpu env (net sn))))"
  using assms(1,5)
proof (induction k arbitrary: st)
  case 0
  then show ?case by simp
next
  case (Suc k)
  from Suc.prems obtain m where
    m: "run_steps cfg env k st0 = Inr m" and t: "train_step cfg env (int k) m = Inr st"
    unfolding run_steps_Suc_Inr by blast
  show ?case
  proof (cases "s = k")
    case True
    from train_step_saved[OF t assms(2) _ assms(3,4)] assms(6) True m show ?thesis
      by (auto simp: paths_distinct)
  next
    case False
    then have "s < k" using Suc.prems(2) by simp
    from Suc.IH[OF m this] obtain a a' b sn where
      A: "run_steps cfg env s st0 = Inr a" "train_phase cfg env (int s) a = Inr a'"
         "test_all cfg env (int s) a' = Inr b" "snn b = Some sn" and
      f: "files (world m) (save_path (out_dir env) (int s))
            = Some (Pth (state_dict env (net_cpu env (net sn))))"
      by blast
    have "files (world st) (save_path (out_dir env) (int s))
            = files (world m) (save_path (out_dir env) (int s))"
    proof (cases "int k mod n_test_interval cfg = 0")
      case True
      from train_step_saved[OF t assms(2) True assms(3,4)] False show ?thesis
        by (auto simp: paths_distinct save_path_inj)
    next
      case False
      then show ?thesis using train_step_unsaved(1)[OF t assms(2)] by simp
    qed
    then show ?thesis using A f by auto
  qed
qed

text \<open>
  Claim C8 (amended).  In a run that is not reference-only and has saving enabled, every
  evaluation round persists the trainable network's weights, as they are when the round's
  held-out batches have been evaluated, to the file \<open>parameters_<step>.pth\<close> of the output
  directory, where \<open>step\<close> is the number of the step at which the round runs (the round
  index times \<open>n_test_interval\<close>), not the round index.  The file is still there, unchanged,
  after any later step, and different steps have different files: one file per round.
\<close>

theorem checkpoint_per_round:
  assumes "start_up cfg env w = Inr st0" and "run_steps cfg env k st0 = Inr st"
    and "k \<le> nat (n_steps cfg)"
    and "\<not> just_ref cfg" and "\<not> no_save cfg"
    and "s < k" and "int s mod n_test_interval cfg = 0"
  shows "(\<exists>a a' b sn. run_steps cfg env s st0 = Inr a \<and> train_phase cfg env (int s) a = Inr a'
            \<and> test_all cfg env (int s) a' = Inr b \<and> snn b = Some sn
            \<and> files (world st)
                 (path_join (out_dir env) (''parameters_'' @ str_int (int s) @ ''.pth''))
                = Some (Pth (state_dict env (net_cpu env (net sn)))))
         \<and> (\<forall>s'. s' \<noteq> s \<longrightarrow>
               save_path (out_dir env) (int s') \<noteq> save_path (out_dir env) (int s))"
proof -
  have k: "0 < k" using assms(6) by simp
  have i: "0 < n_test_interval cfg" using interval_pos[OF assms(1,2) k assms(3)] .
  have name: "path_join (out_dir env) (''parameters_'' @ str_int (int s) @ ''.pth'')
                = save_path (out_dir env) (int s)"
    by (simp add: save_path_def)
  have "\<forall>s'. s' \<noteq> s \<longrightarrow>
               save_path (out_dir env) (int s') \<noteq> save_path (out_dir env) (int s)"
    by (simp add: save_path_inj)
  then show ?thesis
    unfolding name using run_steps_checkpoint[OF assms(2) i assms(4-7)] by blast
qed

theorem checkpoint_per_round_witness:
  "start_up cfg0 env0 w0 = Inr (started cfg0)
   \<and> run_steps cfg0 env0 4 (started cfg0) = Inr (stepped cfg0 4)
   \<and> \<not> just_ref cfg0 \<and> \<not> no_save cfg0 \<and> int 2 mod n_test_interval cfg0 = 0
   \<and> files (world (stepped cfg0 4))
        (path_join (out_dir env0) (''parameters_'' @ str_int (int 2) @ ''.pth'')) \<noteq> None
   \<and> files (world (stepped cfg0 4)) ''results/parameters_2.pth'' = Some (Pth 6)"
proof -
  have s: "start_up cfg0 env0 w0 = Inr (started cfg0)" by (rule started_ok) code_simp
  have r: "run_steps cfg0 env0 4 (started cfg0) = Inr (stepped cfg0 4)" by (rule stepped_ok) code_simp
  have n: "4 \<le> nat (n_steps cfg0)" by (simp add: cfg0_def)
  have c: "\<not> just_ref cfg0" "\<not> no_save cfg0" "(2 :: nat) < 4" "int 2 mod n_test_interval cfg0 = 0"
    by (simp_all add: cfg0_def)
  from checkpoint_per_round[OF s r n c]
  have "files (world (stepped cfg0 4))
        (path_join (out_dir env0) (''parameters_'' @ str_int (int 2) @ ''.pth'')) \<noteq> None"
    by auto
  moreover have "files (world (stepped cfg0 4)) ''results/parameters_2.pth'' = Some (Pth 6)"
    by code_simp
  ultimately show ?thesis using s r c by simp
qed

theorem checkpoint_per_round_counterexample:
  "\<not> isl (main cfg0 env0 w0)
   \<and> \<not> just_ref cfg0 \<and> \<not> no_save cfg0
   \<and> (2 :: int) mod n_test_interval cfg0 = 0 \<and> (2 :: int) div n_test_interval cfg0 = 1
   \<and> files (world (projr (main cfg0 env0 w0))) (save_path (out_dir env0) 1) = None
   \<and> files (world (projr (main cfg0 env0 w0))) (save_path (out_dir env0) 2) = Some (Pth 6)"
  by code_simp

subsection \<open>A failing test tensor\<close>

lemma enumerate_py_split:
  assumes "j < length xs"
  shows "enumerate_py xs = take j (enumerate_py xs) @ (int j, xs ! j) # drop (Suc j) (enumerate_py xs)"
proof -
  have "j < length (enumerate_py xs)" using assms by (simp add: enumerate_py_def)
  moreover have "enumerate_py xs ! j = (int j, xs ! j)" using assms by (simp add: enumerate_py_def)
  ultimately show ?thesis by (metis id_take_nth_drop)
qed

lemma test_snn_runtime_error:
  assumes "\<not> just_ref cfg" and "snn c = Some s"
    and "to_tensor env step (fst (to_spike_train env x y (n_iters_test cfg)))
           = Inl (RuntimeError m)"
  shows "test_snn cfg env step r i x y c = Inl (RuntimeError m, py_print (advice m) (world c))"
proof -
  obtain xs ls where p: "to_spike_train env x y (n_iters_test cfg) = (xs, ls)"
    by (cases "to_spike_train env x y (n_iters_test cfg)")
  then have "to_tensor env step xs = Inl (RuntimeError m)" using assms(3) by simp
  then show ?thesis using assms(1,2) p by (simp add: test_snn_def)
qed

text \<open>
  Claim C7.  Let a run have completed \<open>k\<close> steps and the training part of step \<open>k\<close>, let
  step \<open>k\<close> be a round (the first or any later one) of a run that is not reference-only, and
  let the first \<open>j\<close> held-out batches have been evaluated.  If, at this step,
  \<open>torch.Tensor(test_input).to(device)\<close> raises \<open>RuntimeError(m)\<close> on batch \<open>j\<close>, then evaluating that batch raises this very
  \<open>RuntimeError(m)\<close>, after printing one line: the message with the advice to decrease
  \<open>batch_size_test\<close>.  Nothing else happens after the failure (no retry, no write), and the
  whole run ends with this error.
\<close>

theorem test_tensor_error_fatal:
  assumes "start_up cfg env w = Inr st0" and "k < nat (n_steps cfg)"
    and "run_steps cfg env k st0 = Inr a"
    and "train_phase cfg env (int k) a = Inr b"
    and "n_test_interval cfg \<noteq> 0" and "int k mod n_test_interval cfg = 0"
    and "\<not> just_ref cfg"
    and "j < length (all_test_data b)" and "all_test_data b ! j = (x, y)"
    and "for_each (test_batch cfg env (int k) (int k div n_test_interval cfg))
           (take j (enumerate_py (all_test_data b))) b = Inr c"
    and "snn c = Some s"
    and "to_tensor env (int k) (fst (to_spike_train env x y (n_iters_test cfg)))
           = Inl (RuntimeError m)"
  shows "test_snn cfg env (int k) (int k div n_test_interval cfg) (int j) x y c
           = Inl (RuntimeError m, py_print (advice m) (world c))
         \<and> main cfg env w = Inl (RuntimeError m, py_print (advice m) (world c))
         \<and> stdout (py_print (advice m) (world c))
             = stdout (world c)
               @ [Plain (''- Exception: '' @ m
                    @ ''. Try to decrease your batch_size_test with the --batch_size_test argument.'')]
         \<and> files (py_print (advice m) (world c)) = files (world c)
         \<and> writer (py_print (advice m) (world c)) = writer (world c)"
proof -
  let ?r = "int k div n_test_interval cfg"
  let ?w = "py_print (advice m) (world c)"
  have 1: "test_snn cfg env (int k) ?r (int j) x y c = Inl (RuntimeError m, ?w)"
    using test_snn_runtime_error[OF assms(7,11,12)] .
  then have 2: "test_batch cfg env (int k) ?r (int j, x, y) c = Inl (RuntimeError m, ?w)"
    by (simp add: test_batch_def)
  have "test_all cfg env (int k) b = Inl (RuntimeError m, ?w)"
    unfolding test_all_def
    by (subst enumerate_py_split[OF assms(8)]) (simp add: for_each_append assms(9,10) 2)
  then have "eval_round cfg env (int k) b = Inl (RuntimeError m, ?w)" by (simp add: eval_round_def)
  then have "train_step cfg env (int k) a = Inl (RuntimeError m, ?w)"
    using assms(4,5,6) by (simp add: train_step_def)
  then have "run_steps cfg env (Suc k) st0 = Inl (RuntimeError m, ?w)" using assms(3) by simp
  from run_steps_error[OF this, of "nat (n_steps cfg)"] assms(2)
  have "run_steps cfg env (nat (n_steps cfg)) st0 = Inl (RuntimeError m, ?w)" by simp
  then have "main cfg env w = Inl (RuntimeError m, ?w)" using assms(1) by (simp add: main_def)
  then show ?thesis using 1 by (simp add: py_print_def advice_def)
qed

theorem test_tensor_error_fatal_witness:
  "start_up cfg_oom env_oom w0 = Inr st_oom
   \<and> run_steps cfg_oom env_oom 2 st_oom = Inr st_oom_stepped
   \<and> train_phase cfg_oom env_oom 2 st_oom_stepped = Inr st_oom_trained
   \<and> for_each (test_batch cfg_oom env_oom 2 1)
        (take 1 (enumerate_py (all_test_data st_oom_trained))) st_oom_trained = Inr st_oom_tested
   \<and> to_tensor env_oom 2 (fst (to_spike_train env_oom 8 0 (n_iters_test cfg_oom)))
       = Inl (RuntimeError ''out of memory'')
   \<and> main cfg_oom env_oom w0
       = Inl (RuntimeError ''out of memory'', py_print (advice ''out of memory'') (world st_oom_tested))
   \<and> fst (projl (main cfg_oom env_oom w0)) = RuntimeError ''out of memory''
   \<and> tested_steps (stdout (snd (projl (main cfg_oom env_oom w0)))) = [''00000'']
   \<and> last (stdout (snd (projl (main cfg_oom env_oom w0))))
       = Plain ''- Exception: out of memory. Try to decrease your batch_size_test with the --batch_size_test argument.''"
proof -
  have s: "start_up cfg_oom env_oom w0 = Inr st_oom"
  proof -
    have "\<not> isl (start_up cfg_oom env_oom w0)" by code_simp
    then show ?thesis by (simp add: st_oom_def)
  qed
  have r: "run_steps cfg_oom env_oom 2 st_oom = Inr st_oom_stepped"
  proof -
    have "\<not> isl (run_steps cfg_oom env_oom 2 st_oom)" by code_simp
    then show ?thesis by (simp add: st_oom_stepped_def)
  qed
  have t: "train_phase cfg_oom env_oom (int 2) st_oom_stepped = Inr st_oom_trained"
  proof -
    have "\<not> isl (train_phase cfg_oom env_oom 2 st_oom_stepped)" by code_simp
    then show ?thesis by (simp add: st_oom_trained_def)
  qed
  have q: "int 2 div n_test_interval cfg_oom = 1" by (simp add: cfg_oom_def cfg0_def)
  have l: "for_each (test_batch cfg_oom env_oom (int 2) (int 2 div n_test_interval cfg_oom))
             (take 1 (enumerate_py (all_test_data st_oom_trained))) st_oom_trained
           = Inr st_oom_tested"
  proof -
    have "\<not> isl (for_each (test_batch cfg_oom env_oom 2 1)
                   (take 1 (enumerate_py (all_test_data st_oom_trained))) st_oom_trained)"
      by code_simp
    then show ?thesis by (simp add: st_oom_tested_def cfg_oom_def cfg0_def)
  qed
  have n: "2 < nat (n_steps cfg_oom)" by (simp add: cfg_oom_def cfg0_def)
  have i: "n_test_interval cfg_oom \<noteq> 0" "int 2 mod n_test_interval cfg_oom = 0"
    "\<not> just_ref cfg_oom"
    by (simp_all add: cfg_oom_def cfg0_def)
  have d: "1 < length (all_test_data st_oom_trained)" "all_test_data st_oom_trained ! 1 = (8, 0)"
    "snn st_oom_tested = Some (the (snn st_oom_tested))"
    by code_simp+
  have e: "to_tensor env_oom (int 2) (fst (to_spike_train env_oom 8 0 (n_iters_test cfg_oom)))
             = Inl (RuntimeError ''out of memory'')"
    by (simp add: env_oom_def env0_def cfg_oom_def numeral_3_eq_3)
  note T = test_tensor_error_fatal[OF s n r t i d(1,2) l d(3) e]
  have "fst (projl (main cfg_oom env_oom w0)) = RuntimeError ''out of memory''"
    "tested_steps (stdout (snd (projl (main cfg_oom env_oom w0)))) = [''00000'']"
    "last (stdout (snd (projl (main cfg_oom env_oom w0))))
       = Plain ''- Exception: out of memory. Try to decrease your batch_size_test with the --batch_size_test argument.''"
    by code_simp+
  then show ?thesis using s r t l e T q by simp
qed

subsection \<open>A missing restore file\<close>

lemma test_snn_restore_path:
  "test_snn (cfg\<lparr>restore_path := q\<rparr>) env step r i x y st = test_snn cfg env step r i x y st"
  by (simp add: test_snn_def cong: option.case_cong sum.case_cong prod.case_cong if_cong)

lemma test_batch_restore_path:
  "test_batch (cfg\<lparr>restore_path := q\<rparr>) = test_batch cfg"
proof (intro ext)
  fix env :: "('a, 'b, 'c, 'd) env" and step r :: int and b :: "int \<times> 'a \<times> 'a"
    and st :: "('a, 'b, 'c, 'd) state"
  obtain i x y where "b = (i, x, y)" by (cases b)
  then show "test_batch (cfg\<lparr>restore_path := q\<rparr>) env step r b st = test_batch cfg env step r b st"
    by (simp add: test_batch_def test_snn_restore_path)
qed

lemma train_step_restore_path:
  "train_step (cfg\<lparr>restore_path := q\<rparr>) env step st = train_step cfg env step st"
  by (simp add: train_step_def train_phase_def adjust_lr_def train_snn_def eval_round_def
        test_all_def test_batch_restore_path save_round_def report_round_def then_do_def Let_def
       cong: option.case_cong sum.case_cong prod.case_cong if_cong)

lemma run_steps_restore_path:
  "run_steps (cfg\<lparr>restore_path := q\<rparr>) env k st = run_steps cfg env k st"
  by (induction k) (simp_all add: train_step_restore_path cong: sum.case_cong)

lemma restore_missing:
  assumes "restore_path cfg = Some p" and "p \<noteq> []" and "files w p = None"
  shows "restore cfg env n w = Inr (n, missing_report p w)"
  using assms by (simp add: restore_def missing_report_def Let_def py_print_def)

lemma restore_None:
  assumes "restore_path cfg = None"
  shows "restore cfg env n w = Inr (n, w)"
  using assms by (simp add: restore_def)

lemma start_up_missing:
  assumes "\<not> just_ref cfg" and "restore_path cfg = Some p" and "p \<noteq> []" and "files w p = None"
    and "batch_size_test cfg \<noteq> 0" and "n_test_interval cfg \<noteq> 0"
  shows "start_up cfg env w = start_up (cfg\<lparr>restore_path := None\<rparr>) env (missing_report p w)"
proof -
  have a: "restore cfg env (new_net env) w = Inr (new_net env, missing_report p w)"
    using restore_missing[OF assms(2-4)] .
  have b: "restore (cfg\<lparr>restore_path := None\<rparr>) env (new_net env) (missing_report p w)
             = Inr (new_net env, missing_report p w)"
    by (rule restore_None) simp
  show ?thesis
    using assms(1,5,6)
    by (simp add: start_up_def setup_net_def ceil_div_def a b save_metadata_def Let_def
          cong: sum.case_cong prod.case_cong)
qed

lemma restore_applied:
  assumes "restore cfg env m v = Inr (n', w')"
  shows "n' = m \<or> (\<exists>q sd. restore_path cfg = Some q \<and> files v q = Some (Pth sd)
                          \<and> load_state_dict env m sd = Inr n')"
  using assms
  by (auto simp: restore_def Let_def py_print_def
        split: option.splits if_splits contents.splits sum.splits)

text \<open>
  Claim C6 (amended).  Outside reference-only mode (in that mode the restore path is not
  looked at), let the restore path be a non-empty path at which no file exists.  Then
  restoring prints the error report (a separator, the \<open>ERROR: Cannot load file\<close> line, the
  \<open>File does not exist\<close> line, a separator), raises nothing, touches no file and leaves the
  freshly built network as it is; and the whole run is the run with no restore path at all,
  started after these four lines: it goes on past step 0 with the fresh weights.  In any
  configuration, weights are loaded into the network only from a checkpoint file that exists
  at the restore path.
\<close>

theorem missing_restore_file:
  assumes "\<not> just_ref cfg" and "restore_path cfg = Some p" and "p \<noteq> []"
    and "files w p = None"
  shows "restore cfg env n w = Inr (n, missing_report p w)
         \<and> stdout (missing_report p w)
             = stdout w @ [dashes, Plain (''ERROR: Cannot load file `'' @ p @ ''`.''),
                           Plain ''File does not exist! Exit loading...'', dashes]
         \<and> files (missing_report p w) = files w
         \<and> writer (missing_report p w) = writer w
         \<and> (batch_size_test cfg \<noteq> 0 \<and> n_test_interval cfg \<noteq> 0 \<longrightarrow>
               main cfg env w = main (cfg\<lparr>restore_path := None\<rparr>) env (missing_report p w))
         \<and> (\<forall>cfg' m v n' w'. restore cfg' env m v = Inr (n', w') \<longrightarrow>
               n' = m \<or> (\<exists>q sd. restore_path cfg' = Some q \<and> files v q = Some (Pth sd)
                               \<and> load_state_dict env m sd = Inr n'))"
proof -
  have "main cfg env w = main (cfg\<lparr>restore_path := None\<rparr>) env (missing_report p w)"
    if "batch_size_test cfg \<noteq> 0" "n_test_interval cfg \<noteq> 0"
    using start_up_missing[OF assms that, of env]
    by (simp add: main_def run_steps_restore_path cong: sum.case_cong)
  moreover have "\<forall>cfg' m v n' w'. restore cfg' env m v = Inr (n', w') \<longrightarrow>
               n' = m \<or> (\<exists>q sd. restore_path cfg' = Some q \<and> files v q = Some (Pth sd)
                               \<and> load_state_dict env m sd = Inr n')"
    by (intro allI impI) (rule restore_applied)
  ultimately show ?thesis
    using restore_missing[OF assms(2-4)] by (simp add: missing_report_def py_print_def)
qed

theorem missing_restore_file_witness:
  "\<not> just_ref cfg_missing \<and> restore_path cfg_missing = Some ''missing.pth''
   \<and> files w0 ''missing.pth'' = None
   \<and> main cfg_missing env0 w0 = main cfg0 env0 (missing_report ''missing.pth'' w0)
   \<and> \<not> isl (main cfg_missing env0 w0)
   \<and> take 4 (stdout (world (projr (main cfg_missing env0 w0))))
       = [dashes, Plain ''ERROR: Cannot load file `missing.pth`.'',
          Plain ''File does not exist! Exit loading...'', dashes]"
proof -
  have a: "\<not> just_ref cfg_missing" "restore_path cfg_missing = Some ''missing.pth''"
    "''missing.pth'' \<noteq> []" "files w0 ''missing.pth'' = None"
    by (simp_all add: cfg_missing_def cfg0_def w0_def)
  have b: "batch_size_test cfg_missing \<noteq> 0 \<and> n_test_interval cfg_missing \<noteq> 0"
    by (simp add: cfg_missing_def cfg0_def)
  have c: "cfg_missing\<lparr>restore_path := None\<rparr> = cfg0" by (simp add: cfg_missing_def cfg0_def)
  from missing_restore_file[OF a, of env0] b c
  have "main cfg_missing env0 w0 = main cfg0 env0 (missing_report ''missing.pth'' w0)"
    by simp
  moreover have "\<not> isl (main cfg_missing env0 w0)"
    "take 4 (stdout (world (projr (main cfg_missing env0 w0))))
       = [dashes, Plain ''ERROR: Cannot load file `missing.pth`.'',
          Plain ''File does not exist! Exit loading...'', dashes]"
    by code_simp+
  ultimately show ?thesis using a by simp
qed

theorem missing_restore_file_counterexample:
  "just_ref cfg_ref_missing \<and> restore_path cfg_ref_missing = Some ''missing.pth''
   \<and> files w0 ''missing.pth'' = None
   \<and> \<not> isl (main cfg_ref_missing env0 w0)
   \<and> stdout (world (projr (start_up cfg_ref_missing env0 w0))) = []
   \<and> Plain ''ERROR: Cannot load file `missing.pth`.''
        \<notin> set (stdout (world (projr (main cfg_ref_missing env0 w0))))"
  by code_simp

end
